theory Spec2Isabelle
  imports Complex_Main
begin

section \<open>Configuration\<close>

text \<open>
  The part of \<^verbatim>\<open>config/config.js\<close> that the check executor and the alerts engine read.
  Both modules work on \<^verbatim>\<open>cfg = Object.assign(config, configLocal)\<close>; the local
  overrides are not part of the repository, so \<open>cfg\<close> is a parameter everywhere and
  \<open>default_config\<close> is the value of \<^verbatim>\<open>config.js\<close> alone.
\<close>

record performance_cfg =
  sla :: real

record thresholds_cfg =
  blockDrift :: int

record alertsEngine_cfg =
  enabled :: bool
  queueName :: string
  thresholds :: thresholds_cfg

record config =
  cfg_performance :: performance_cfg
  alertsEngine :: alertsEngine_cfg

definition default_config :: config where
  "default_config =
     \<lparr>cfg_performance = \<lparr>sla = 500\<rparr>,
      alertsEngine = \<lparr>enabled = False, queueName = ''alerts'',
                      thresholds = \<lparr>blockDrift = 20\<rparr>\<rparr>\<rparr>"

section \<open>Health checks\<close>

text \<open>
  A check result as \<^verbatim>\<open>performCheck\<close> and \<^verbatim>\<open>performCheckError\<close> build it, and the
  HealthCheck row that is a persisted result (the result's fields plus \<open>id\<close> and
  \<open>createdAt\<close>). Fields that only one of the two builders sets are optional:
  \<open>None\<close> is JavaScript's \<^verbatim>\<open>undefined\<close> (for \<open>status\<close> and \<open>peerId\<close>: \<^verbatim>\<open>null\<close>).
  Block numbers are integers, times are milliseconds; the response time is a real
  number of milliseconds. \<^verbatim>\<open>networkState\<close> is left out: the source stores the RPC
  method itself there, not an answer. Both builders always attach a \<open>record\<close>, so the
  field is total.
\<close>

record syncState_t =
  startingBlock :: int
  currentBlock :: int
  highestBlock :: int

record archiveState_t =
  randomBlock :: int
  specVersion :: string

record js_error =
  err_name :: string
  err_message :: string

record check_record =
  rec_monitorId :: string
  rec_memberId :: string
  rec_serviceId :: string
  endpoint :: string
  ipAddress :: "string option"
  ip_address :: "string option"
  rec_chain :: "string option"
  chainType :: "string option"
  health :: "string option"
  syncState :: "syncState_t option"
  finalizedBlock :: "int option"
  archiveState :: "archiveState_t option"
  version :: "string option"
  error :: "js_error option"
  performance :: real

record check_result =
  monitorId :: string
  serviceId :: string
  memberId :: string
  peerId :: "string option"
  source :: string
  type' :: string
  status :: "string option"
  responseTimeMs :: "real option"
  record' :: check_record

record health_check = check_result +
  hc_id :: nat
  createdAt :: int

section \<open>The alerts engine\<close>

text \<open>
  \<^verbatim>\<open>AlertsEngine\<close>: the alert codes, the severities, the retention options given to
  every \<^verbatim>\<open>queue.add\<close>, and the job payload. A message is a template literal, kept as
  its parts.
\<close>

definition ALERT_CODE_100 :: nat where "ALERT_CODE_100 = 100"
definition ALERT_CODE_101 :: nat where "ALERT_CODE_101 = 101"
definition ALERT_CODE_102 :: nat where "ALERT_CODE_102 = 102"
definition ALERT_CODE_103 :: nat where "ALERT_CODE_103 = 103"

definition SEVERITY_HIGH :: string where "SEVERITY_HIGH = ''high''"
definition SEVERITY_MEDIUM :: string where "SEVERITY_MEDIUM = ''medium''"
definition SEVERITY_LOW :: string where "SEVERITY_LOW = ''low''"

datatype msg_part = Txt string | IntP int | NatP nat | RealP real | ErrP js_error

record alert_job =
  code :: nat
  severity :: string
  message :: "msg_part list"
  job_memberId :: string
  job_serviceId :: string
  healthCheckId :: nat
  healthChecks :: "health_check list"

record job_opts =
  repeat :: "bool option"
  timeout :: nat
  removeOnComplete_age :: nat
  removeOnComplete_count :: nat
  removeOnFail_age :: nat

definition jobRetention :: job_opts where
  "jobRetention =
     \<lparr>repeat = None, timeout = 60 * 1000,
      removeOnComplete_age = 5 * 24 * 60 * 60, removeOnComplete_count = 10000,
      removeOnFail_age = 5 * 24 * 60 * 60\<rparr>"

text \<open>
  One call \<^verbatim>\<open>this.queue.add(name, data, { repeat: false, ...jobRetention })\<close>. The call
  is not awaited; what \<^verbatim>\<open>run\<close> does to the queue is the list of the jobs it adds.
\<close>

record queued =
  q_name :: string
  q_data :: alert_job
  q_opts :: job_opts

definition queue_add :: "config \<Rightarrow> alert_job \<Rightarrow> queued" where
  "queue_add cfg job =
     \<lparr>q_name = queueName (alertsEngine cfg), q_data = job, q_opts = jobRetention\<lparr>repeat := Some False\<rparr>\<rparr>"

text \<open>
  \<^verbatim>\<open>datastore.HealthCheck.findOne({where, order: [['createdAt', 'DESC']]})\<close>: the table
  is the list of its rows, the \<^verbatim>\<open>where\<close> clause a predicate on a row; the answer is the
  first row of the matching ones ordered by \<open>createdAt\<close>, latest first, or \<^verbatim>\<open>null\<close>.
\<close>

definition findOne :: "(health_check \<Rightarrow> bool) \<Rightarrow> health_check list \<Rightarrow> health_check option" where
  "findOne wh rows =
     (case sort_key (\<lambda>h. - createdAt h) (filter wh rows) of
        [] \<Rightarrow> None
      | h # _ \<Rightarrow> Some h)"

text \<open>
  The two history queries of \<^verbatim>\<open>run\<close>. \<open>t1\<close>, \<open>t2\<close> and \<open>t3\<close> are the three readings of
  the clock (\<^verbatim>\<open>new Date()\<close>), in milliseconds, in the order the source takes them.
\<close>

definition previousHealthCheck :: "int \<Rightarrow> health_check list \<Rightarrow> health_check \<Rightarrow> health_check option" where
  "previousHealthCheck t1 db currentHealthCheck =
     findOne (\<lambda>h. memberId h = memberId currentHealthCheck
                 \<and> serviceId h = serviceId currentHealthCheck
                 \<and> status h = Some ''success''
                 \<and> createdAt h < t1 - 60 * 1000) db"

definition otherMemberHealthCheck :: "int \<Rightarrow> int \<Rightarrow> health_check list \<Rightarrow> health_check \<Rightarrow> health_check option" where
  "otherMemberHealthCheck t2 t3 db currentHealthCheck =
     findOne (\<lambda>h. memberId h \<noteq> memberId currentHealthCheck
                 \<and> serviceId h = serviceId currentHealthCheck
                 \<and> status h = Some ''success''
                 \<and> createdAt h < t2 - 60 * 1000
                 \<and> createdAt h > t3 - 10 * 60 * 1000) db"

text \<open>
  The four rule blocks of \<^verbatim>\<open>run\<close>, each giving the \<^verbatim>\<open>queue.add\<close> calls it makes.
  In rule 102 an absent \<open>finalizedBlock\<close> makes the drift \<^verbatim>\<open>NaN\<close>, and
  \<^verbatim>\<open>NaN >= threshold\<close> is false.
\<close>

definition rule100 :: "config \<Rightarrow> health_check \<Rightarrow> queued list" where
  "rule100 cfg currentHealthCheck =
     (if status currentHealthCheck = Some ''error'' then
        [queue_add cfg
          \<lparr>code = ALERT_CODE_100, severity = SEVERITY_HIGH,
           message = (case error (record' currentHealthCheck) of
                        Some e \<Rightarrow> [Txt (err_message e)]
                      | None \<Rightarrow> [Txt ''Error message not available'']),
           job_memberId = memberId currentHealthCheck,
           job_serviceId = serviceId currentHealthCheck,
           healthCheckId = hc_id currentHealthCheck,
           healthChecks = [currentHealthCheck]\<rparr>]
      else [])"

definition rule101 :: "config \<Rightarrow> health_check \<Rightarrow> health_check option \<Rightarrow> health_check option \<Rightarrow> queued list" where
  "rule101 cfg currentHealthCheck previous otherMember =
     (case (status currentHealthCheck, previous, otherMember) of
        (Some st, Some prev, Some other) \<Rightarrow>
          (if status prev = Some ''success'' \<and> st = ''success''
              \<and> status other = Some ''success'' then
             (case (syncState (record' prev),
                    syncState (record' currentHealthCheck),
                    syncState (record' other)) of
                (Some ps, Some cs, Some os) \<Rightarrow>
                  (if currentBlock ps = currentBlock cs \<and> currentBlock os \<noteq> currentBlock cs then
                     [queue_add cfg
                       \<lparr>code = ALERT_CODE_101, severity = SEVERITY_HIGH,
                        message = [Txt ''Best block is halted at block #'', IntP (currentBlock cs),
                                   Txt '' since the last Health Check #'', NatP (hc_id prev)],
                        job_memberId = memberId currentHealthCheck,
                        job_serviceId = serviceId currentHealthCheck,
                        healthCheckId = hc_id currentHealthCheck,
                        healthChecks = [currentHealthCheck, prev]\<rparr>]
                   else [])
              | _ \<Rightarrow> [])
           else [])
      | _ \<Rightarrow> [])"

definition rule102 :: "config \<Rightarrow> health_check \<Rightarrow> queued list" where
  "rule102 cfg currentHealthCheck =
     (if status currentHealthCheck = Some ''success'' then
        (case syncState (record' currentHealthCheck) of
           None \<Rightarrow> []
         | Some cs \<Rightarrow>
             (case finalizedBlock (record' currentHealthCheck) of
                None \<Rightarrow> []
              | Some fb \<Rightarrow>
                  (let blockDrift' = currentBlock cs - fb in
                   if blockDrift' \<ge> blockDrift (thresholds (alertsEngine cfg)) then
                     [queue_add cfg
                       \<lparr>code = ALERT_CODE_102, severity = SEVERITY_MEDIUM,
                        message = [Txt ''Finalized block #'', IntP fb,
                                   Txt '' drifting by more than '', IntP blockDrift', Txt '' blocks''],
                        job_memberId = memberId currentHealthCheck,
                        job_serviceId = serviceId currentHealthCheck,
                        healthCheckId = hc_id currentHealthCheck,
                        healthChecks = [currentHealthCheck]\<rparr>]
                   else [])))
      else [])"

definition rule103 :: "config \<Rightarrow> health_check \<Rightarrow> queued list" where
  "rule103 cfg currentHealthCheck =
     (if status currentHealthCheck = Some ''success'' then
        (if performance (record' currentHealthCheck) > sla (cfg_performance cfg) then
           [queue_add cfg
             \<lparr>code = ALERT_CODE_103, severity = SEVERITY_LOW,
              message = [Txt ''Service response time '', RealP (performance (record' currentHealthCheck)),
                         Txt ''ms is higher than expected''],
              job_memberId = memberId currentHealthCheck,
              job_serviceId = serviceId currentHealthCheck,
              healthCheckId = hc_id currentHealthCheck,
              healthChecks = [currentHealthCheck]\<rparr>]
         else [])
      else [])"

text \<open>
  \<^verbatim>\<open>AlertsEngine.run\<close>: nothing at all when alerting is disabled; otherwise the two
  queries, then the four rules in the order of the source. The value is the list of
  jobs added to the queue, in the order they are added.
\<close>

definition run :: "config \<Rightarrow> int \<Rightarrow> int \<Rightarrow> int \<Rightarrow> health_check list \<Rightarrow> health_check \<Rightarrow> queued list" where
  "run cfg t1 t2 t3 db currentHealthCheck =
     (if \<not> enabled (alertsEngine cfg) then []
      else
        (let prev = previousHealthCheck t1 db currentHealthCheck;
             other = otherMemberHealthCheck t2 t3 db currentHealthCheck
         in rule100 cfg currentHealthCheck
            @ rule101 cfg currentHealthCheck prev other
            @ rule102 cfg currentHealthCheck
            @ rule103 cfg currentHealthCheck))"

text \<open>The jobs of a given alert code among the queued ones.\<close>

definition jobs_with_code :: "nat \<Rightarrow> queued list \<Rightarrow> alert_job list" where
  "jobs_with_code c qs = filter (\<lambda>j. code j = c) (map q_data qs)"

section \<open>The check executor\<close>

text \<open>
  \<^verbatim>\<open>workers/f-check-service.js\<close>. The job's data, with \<open>None\<close> for an absent
  \<^verbatim>\<open>subdomain\<close> or \<^verbatim>\<open>chainId\<close> (the default parameters of \<^verbatim>\<open>getDomain\<close> and
  \<^verbatim>\<open>getEndpoint\<close> apply to \<^verbatim>\<open>undefined\<close>).
\<close>

record member_t =
  member_id :: string
  serviceIpAddress :: string

record service_t =
  service_id :: string
  chainId :: "string option"
  serviceUrl :: string

record job_data =
  subdomain :: "string option"
  member' :: member_t
  service' :: service_t
  job_monitorId :: string

definition getDomain :: "string option \<Rightarrow> string" where
  "getDomain sub = (case sub of None \<Rightarrow> ''rpc'' | Some s \<Rightarrow> s) @ ''.dotters.network''"

definition getEndpoint :: "string option \<Rightarrow> string option \<Rightarrow> string" where
  "getEndpoint sub chain' =
     ''wss://'' @ getDomain sub @ ''/'' @ (case chain' of None \<Rightarrow> ''polkadot'' | Some c \<Rightarrow> c)"

text \<open>
  What a check does to the world is a trace of events, oldest first: log lines, changes of
  the DNS override table (\<^verbatim>\<open>edns.add\<close>, \<^verbatim>\<open>edns.remove\<close>), lookups with their answer,
  calls of the check function with the error they threw (if any), and sleeps.
\<close>

datatype event =
    JobLog "msg_part list"
  | ConsoleLog "msg_part list"
  | DnsAdd string string
  | DnsRemove string string
  | DnsLookup string "string option"
  | Attempt "js_error option"
  | Sleep nat

text \<open>
  What the executor takes from Node is a parameter: \<open>isIP\<close>, the test
  \<^verbatim>\<open>net.isIPv4(ip) || net.isIPv6(ip)\<close> by which \<^verbatim>\<open>edns.add\<close> accepts an address;
  \<open>resolve\<close>, the system resolver, which may fail (\<open>None\<close>); and the subtraction,
  multiplication and division of doubles, which round. A double is the real number it
  stands for, so comparisons of doubles are those of the reals.
\<close>

record platform =
  isIP :: "string \<Rightarrow> bool"
  resolve :: "string \<Rightarrow> string option"
  minus_double :: "real \<Rightarrow> real \<Rightarrow> real"
  times_double :: "real \<Rightarrow> real \<Rightarrow> real"
  divide_double :: "real \<Rightarrow> real \<Rightarrow> real"

text \<open>
  The override table of the \<^verbatim>\<open>evil-dns\<close> package after a trace. The package is not part
  of the repository; the table follows what the source relies on: \<^verbatim>\<open>add\<close> throws
  \<^verbatim>\<open>Invalid ip\<close> for an address that is neither an IPv4 nor an IPv6 literal and appends
  an entry otherwise, \<^verbatim>\<open>remove\<close> drops the entries with that domain and address, and
  the patched \<^verbatim>\<open>dns.lookup\<close> answers with the first entry for the domain (domains are
  compared as plain names). Without an entry the lookup goes to the system resolver, and
  when that fails \<^verbatim>\<open>lookupAsync\<close> rejects.
\<close>

fun override_table :: "(string \<times> string) list \<Rightarrow> event list \<Rightarrow> (string \<times> string) list" where
  "override_table tab [] = tab"
| "override_table tab (e # es) =
     (case e of
        DnsAdd d ip \<Rightarrow> override_table (tab @ [(d, ip)]) es
      | DnsRemove d ip \<Rightarrow> override_table (filter (\<lambda>entry. entry \<noteq> (d, ip)) tab) es
      | _ \<Rightarrow> override_table tab es)"

definition lookupAsync :: "platform \<Rightarrow> string \<Rightarrow> event list \<Rightarrow> (js_error + string) \<times> event list" where
  "lookupAsync pf domain tr =
     (case map_of (override_table [] tr) domain of
        Some ip \<Rightarrow> (Inr ip, tr @ [DnsLookup domain (Some ip)])
      | None \<Rightarrow>
          (case resolve pf domain of
             Some address \<Rightarrow> (Inr address, tr @ [DnsLookup domain (Some address)])
           | None \<Rightarrow> (Inl \<lparr>err_name = ''Error'', err_message = ''getaddrinfo ENOTFOUND '' @ domain\<rparr>,
                      tr @ [DnsLookup domain None])))"

definition setDNS :: "platform \<Rightarrow> string \<Rightarrow> string \<Rightarrow> event list \<Rightarrow> (js_error + unit) \<times> event list" where
  "setDNS pf domain ip tr =
     (if \<not> isIP pf ip then
        (Inl \<lparr>err_name = ''Error'', err_message = ''Invalid ip: '' @ ip\<rparr>, tr)
      else
        (case lookupAsync pf domain (tr @ [DnsAdd domain ip]) of
           (Inl e, tr') \<Rightarrow> (Inl e, tr')
         | (Inr address, tr') \<Rightarrow>
             (Inr (), tr' @ [ConsoleLog [Txt domain, Txt '' now resolves to '', Txt address,
                                          Txt '', and should be '', Txt ip]])))"

definition clearDNS :: "platform \<Rightarrow> string \<Rightarrow> string \<Rightarrow> event list \<Rightarrow> (js_error + unit) \<times> event list" where
  "clearDNS pf domain ip tr =
     (case lookupAsync pf domain
             (tr @ [ConsoleLog [Txt ''removing eDns for '', Txt domain], DnsRemove domain ip]) of
        (Inl e, tr') \<Rightarrow> (Inl e, tr')
      | (Inr address, tr') \<Rightarrow>
          (Inr (), tr' @ [ConsoleLog [Txt domain, Txt '' now resolves to '', Txt address]]))"

text \<open>
  \<^verbatim>\<open>performCheck\<close>: the connection and the RPC calls of one attempt are the parameter
  \<open>rpc\<close>, which for a job and the trace so far gives either the error the attempt throws or
  the facts it gathers; the function builds the result from the facts. \<open>start\<close> and \<open>end'\<close>
  are the two readings of \<^verbatim>\<open>performance.now()\<close>, \<open>random\<close> the value of \<^verbatim>\<open>Math.random()\<close>.
  The response time \<^verbatim>\<open>end - start\<close> and the number of the archive probe are computed
  with the platform's operations on doubles.
  An attempt settles: it returns or it throws an error object with a \<^verbatim>\<open>name\<close> and a
  \<^verbatim>\<open>message\<close>. The lines that \<^verbatim>\<open>performCheck\<close> itself logs are not in the trace.
  The SLA that classifies the result is \<^verbatim>\<open>cfg.performance?.sla || 500\<close>: a configured
  value of zero is falsy and gives 500.
\<close>

record node_facts =
  nf_peerId :: string
  nf_chain :: string
  nf_chainType :: string
  start :: real
  end' :: real
  nf_health :: string
  nf_syncState :: syncState_t
  nf_finalizedBlock :: int
  nf_version :: string
  random :: real
  nf_specVersion :: string

type_synonym check_fn = "job_data \<Rightarrow> event list \<Rightarrow> js_error + check_result"

definition performCheck :: "config \<Rightarrow> platform \<Rightarrow> (job_data \<Rightarrow> event list \<Rightarrow> js_error + node_facts) \<Rightarrow> check_fn" where
  "performCheck cfg pf rpc job tr =
     (case rpc job tr of
        Inl e \<Rightarrow> Inl e
      | Inr f \<Rightarrow>
          (let endpoint' = getEndpoint (subdomain job) (chainId (service' job));
               randBlockNumber =
                 \<lfloor>times_double pf (random f) (divide_double pf (real_of_int (nf_finalizedBlock f)) 2)\<rfloor> + 1;
               timing = minus_double pf (end' f) (start f)
           in Inr
             \<lparr>monitorId = job_monitorId job,
              serviceId = service_id (service' job),
              memberId = member_id (member' job),
              peerId = Some (nf_peerId f),
              source = ''check'',
              type' = ''service_check'',
              status = Some (if timing > (if sla (cfg_performance cfg) = 0 then 500 else sla (cfg_performance cfg))
                             then ''warning'' else ''success''),
              responseTimeMs = Some timing,
              record' =
                \<lparr>rec_monitorId = job_monitorId job,
                 rec_memberId = member_id (member' job),
                 rec_serviceId = service_id (service' job),
                 endpoint = endpoint',
                 ipAddress = Some (serviceIpAddress (member' job)),
                 ip_address = None,
                 rec_chain = Some (nf_chain f),
                 chainType = Some (nf_chainType f),
                 health = Some (nf_health f),
                 syncState = Some (nf_syncState f),
                 finalizedBlock = Some (nf_finalizedBlock f),
                 archiveState = Some \<lparr>randomBlock = randBlockNumber, specVersion = nf_specVersion f\<rparr>,
                 version = Some (nf_version f),
                 error = None,
                 performance = timing\<rparr>\<rparr>))"

definition performCheckError :: "js_error \<Rightarrow> job_data \<Rightarrow> check_result" where
  "performCheckError error' job =
     \<lparr>monitorId = job_monitorId job,
      serviceId = service_id (service' job),
      memberId = member_id (member' job),
      peerId = None,
      source = ''check'',
      type' = ''service_check'',
      status = Some ''error'',
      responseTimeMs = None,
      record' =
        \<lparr>rec_monitorId = job_monitorId job,
         rec_memberId = member_id (member' job),
         rec_serviceId = service_id (service' job),
         endpoint = getEndpoint (subdomain job) (chainId (service' job)),
         ipAddress = None,
         ip_address = Some (serviceIpAddress (member' job)),
         rec_chain = None,
         chainType = None,
         health = None,
         syncState = None,
         finalizedBlock = None,
         archiveState = None,
         version = None,
         error = Some \<lparr>err_name = err_name error', err_message = err_message error'\<rparr>,
         performance = - 1\<rparr>\<rparr>"

text \<open>
  \<^verbatim>\<open>retryFn\<close>: \<^verbatim>\<open>retriesLeft\<close> is a JavaScript number that the function tests for
  truthiness and decrements, so it is an integer here and the recursion need not end
  (a negative budget never reaches zero): not returning is the value \<open>None\<close>. The check
  function is given the job and the trace as it stands when it is called. The defaults
  \<^verbatim>\<open>retriesLeft = 3\<close> and \<^verbatim>\<open>interval = 1000\<close> are not used: the only call passes both.
\<close>

partial_function (option) retryFn :: "check_fn \<Rightarrow> job_data \<Rightarrow> int \<Rightarrow> nat \<Rightarrow> event list \<Rightarrow> (check_result \<times> event list) option" where
  "retryFn fn job retriesLeft interval tr =
     (let tr1 = tr @ [JobLog [Txt ''retryAttempt '', IntP retriesLeft]] in
      case fn job tr1 of
        Inr result \<Rightarrow> Some (result, tr1 @ [Attempt None])
      | Inl error' \<Rightarrow>
          (let tr2 = tr1 @ [Attempt (Some error'), JobLog [ErrP error'], ConsoleLog [ErrP error']] in
           if err_name error' = ''RpcError'' then Some (performCheckError error' job, tr2)
           else if retriesLeft \<noteq> 0 then retryFn fn job (retriesLeft - 1) interval (tr2 @ [Sleep interval])
           else Some (performCheckError error' job, tr2)))"

definition checkService :: "config \<Rightarrow> platform \<Rightarrow> (job_data \<Rightarrow> event list \<Rightarrow> js_error + node_facts)
    \<Rightarrow> job_data \<Rightarrow> event list \<Rightarrow> ((js_error + check_result) \<times> event list) option" where
  "checkService cfg pf rpc job tr =
     (let domain = getDomain (subdomain job); ip = serviceIpAddress (member' job) in
      case setDNS pf domain ip tr of
        (Inl e, tr1) \<Rightarrow> Some (Inl e, tr1)
      | (Inr _, tr1) \<Rightarrow>
          (case retryFn (performCheck cfg pf rpc) job 3 (1 * 1000) tr1 of
             None \<Rightarrow> None
           | Some (result, tr2) \<Rightarrow>
               (case clearDNS pf domain ip tr2 of
                  (Inl e, tr3) \<Rightarrow> Some (Inl e, tr3)
                | (Inr _, tr3) \<Rightarrow>
                    Some (Inr result,
                          tr3 @ [ConsoleLog [Txt ''[worker] checkService done...'',
                                             Txt (member_id (member' job)), Txt (service_id (service' job))],
                                 JobLog [Txt ''checkService done...'',
                                         Txt (member_id (member' job)), Txt (service_id (service' job))]]))))"

text \<open>Reading a trace: the attempts made, the sleeps, and the changes of the override table.\<close>

fun is_attempt :: "event \<Rightarrow> bool" where
  "is_attempt (Attempt _) = True"
| "is_attempt _ = False"

fun is_sleep :: "event \<Rightarrow> bool" where
  "is_sleep (Sleep _) = True"
| "is_sleep _ = False"

fun is_dns_change :: "event \<Rightarrow> bool" where
  "is_dns_change (DnsAdd _ _) = True"
| "is_dns_change (DnsRemove _ _) = True"
| "is_dns_change _ = False"

definition attempts :: "event list \<Rightarrow> nat" where
  "attempts tr = length (filter is_attempt tr)"

definition sleeps :: "event list \<Rightarrow> nat" where
  "sleeps tr = length (filter is_sleep tr)"

section \<open>The message handler\<close>

text \<open>
  \<^verbatim>\<open>monitor/lib/MessageHandler.js\<close>. A decoded payload is a JSON value; the result of
  reading a property is a \<open>json option\<close>, \<open>None\<close> being \<^verbatim>\<open>undefined\<close>. Numbers are
  reals. An object is the list of its members, looked up by \<open>map_of\<close>.
\<close>

datatype json =
    JNull
  | JBool bool
  | JNum real
  | JStr string
  | JArr "json list"
  | JObj "(string \<times> json) list"

text \<open>
  Two operations of the language are parameters: \<^verbatim>\<open>JSON.parse\<close>, which gives the decoded
  value or the \<^verbatim>\<open>SyntaxError\<close> it throws, and the conversion to a number of a string,
  an array or an object (used only when a payload that is not an array carries a
  \<^verbatim>\<open>length\<close> of such a kind); \<open>None\<close> is \<^verbatim>\<open>NaN\<close>.
\<close>

record builtins =
  JSON_parse :: "string \<Rightarrow> js_error + json"
  ToNumber :: "json \<Rightarrow> real option"

definition TypeError :: "string \<Rightarrow> js_error" where
  "TypeError prop' =
     \<lparr>err_name = ''TypeError'',
      err_message = ''Cannot read properties of null or undefined (reading '' @ prop' @ '')''\<rparr>"

fun js_truthy :: "json option \<Rightarrow> bool" where
  "js_truthy None = False"
| "js_truthy (Some JNull) = False"
| "js_truthy (Some (JBool b)) = b"
| "js_truthy (Some (JNum r)) = (r \<noteq> 0)"
| "js_truthy (Some (JStr s)) = (s \<noteq> [])"
| "js_truthy (Some (JArr _)) = True"
| "js_truthy (Some (JObj _)) = True"

text \<open>
  \<open>js_prop v k\<close> is \<^verbatim>\<open>v.k\<close> for the property names the handler reads
  (\<^verbatim>\<open>serviceUrl\<close>, \<^verbatim>\<open>level\<close>, \<^verbatim>\<open>length\<close>): a \<^verbatim>\<open>TypeError\<close> on \<^verbatim>\<open>null\<close>,
  the member of an object, the length of an array or string, \<^verbatim>\<open>undefined\<close> otherwise.
\<close>

fun js_prop :: "json \<Rightarrow> string \<Rightarrow> js_error + json option" where
  "js_prop JNull k = Inl (TypeError k)"
| "js_prop (JObj kvs) k = Inr (map_of kvs k)"
| "js_prop (JArr xs) k = Inr (if k = ''length'' then Some (JNum (real (length xs))) else None)"
| "js_prop (JStr s) k = Inr (if k = ''length'' then Some (JNum (real (length s))) else None)"
| "js_prop (JBool _) k = Inr None"
| "js_prop (JNum _) k = Inr None"

fun show_nat :: "nat \<Rightarrow> string" where
  "show_nat n = (if n < 10 then [char_of (48 + n)] else show_nat (n div 10) @ [char_of (48 + n mod 10)])"

text \<open>\<open>js_index v i\<close> is \<^verbatim>\<open>v[i]\<close> for a number \<open>i\<close>.\<close>

fun js_index :: "json \<Rightarrow> nat \<Rightarrow> json option" where
  "js_index (JArr xs) i = (if i < length xs then Some (xs ! i) else None)"
| "js_index (JStr s) i = (if i < length s then Some (JStr [s ! i]) else None)"
| "js_index (JObj kvs) i = map_of kvs (show_nat i)"
| "js_index _ i = None"

fun to_number :: "builtins \<Rightarrow> json option \<Rightarrow> real option" where
  "to_number bi None = None"
| "to_number bi (Some JNull) = Some 0"
| "to_number bi (Some (JBool b)) = Some (if b then 1 else 0)"
| "to_number bi (Some (JNum r)) = Some r"
| "to_number bi (Some v) = ToNumber bi v"

text \<open>
  The values \<^verbatim>\<open>services[0], services[1], ...\<close> that the loop
  \<^verbatim>\<open>for (var i = 0; i < services.length; i++)\<close> visits: as many as there are numbers
  \<open>i \<ge> 0\<close> below the length, none when the length is \<^verbatim>\<open>NaN\<close>.
\<close>

definition iterations :: "builtins \<Rightarrow> json \<Rightarrow> nat" where
  "iterations bi services =
     (case js_prop services ''length'' of
        Inl _ \<Rightarrow> 0
      | Inr len \<Rightarrow> (case to_number bi len of None \<Rightarrow> 0 | Some r \<Rightarrow> nat \<lceil>r\<rceil>))"

definition js_elements :: "builtins \<Rightarrow> json \<Rightarrow> json option list" where
  "js_elements bi services = map (js_index services) [0..<iterations bi services]"

text \<open>
  The datastore is known by the operations the handler calls on it, in order; they are
  taken to succeed. The console is the list of its lines. In an event, \<open>from'\<close> is
  \<^verbatim>\<open>evt.detail.from.toString()\<close> and \<open>data\<close> is
  \<^verbatim>\<open>uint8ArrayToString(evt.detail.data)\<close>, the payload as text.
\<close>

record gossip_model =
  g_monitorId :: string
  g_serviceUrl :: "json option"
  g_level :: "json option"
  g_source :: string
  g_record :: json

datatype ds_op =
    Monitor_upsert string json
  | Service_upsert "json option"
  | Peer_upsert string "json option"
  | HealthCheck_create gossip_model

datatype log_entry =
    LogServicesFrom string
  | LogModel "json option"
  | LogHealthCheckFrom string "json option"
  | LogReceived string string string

record handler_state =
  datastore :: "ds_op list"
  console :: "log_entry list"

record message_event =
  topic :: string
  from' :: string
  data :: string

text \<open>The body of the loop over the announced services, with the fault that ends it.\<close>

fun services_loop :: "string \<Rightarrow> json option list \<Rightarrow> handler_state \<Rightarrow> (js_error + unit) \<times> handler_state" where
  "services_loop sender [] st = (Inr (), st)"
| "services_loop sender (model # rest) st =
     (let st1 = st\<lparr>console := console st @ [LogModel model]\<rparr>;
          st2 = st1\<lparr>datastore := datastore st1 @ [Service_upsert model]\<rparr>
      in case model of
           None \<Rightarrow> (Inl (TypeError ''serviceUrl''), st2)
         | Some m \<Rightarrow>
             (case js_prop m ''serviceUrl'' of
                Inl e \<Rightarrow> (Inl e, st2)
              | Inr url \<Rightarrow>
                  services_loop sender rest
                    (st2\<lparr>datastore := datastore st2 @ [Peer_upsert sender url]\<rparr>)))"

text \<open>
  \<^verbatim>\<open>handleMessage\<close>: the value is \<open>Inr ()\<close> when the handler completes and \<open>Inl e\<close> when
  it throws \<open>e\<close> (the promise it returns is rejected); the handler has no
  \<^verbatim>\<open>try\<close>/\<^verbatim>\<open>catch\<close>.
\<close>

definition handleMessage :: "builtins \<Rightarrow> message_event \<Rightarrow> handler_state \<Rightarrow> (js_error + unit) \<times> handler_state" where
  "handleMessage bi evt st =
     (if topic evt = ''/ibp/services'' then
        (case JSON_parse bi (data evt) of
           Inl e \<Rightarrow> (Inl e, st)
         | Inr parsed \<Rightarrow>
             (let services = (if js_truthy (Some parsed) then parsed else JArr []);
                  st1 = st\<lparr>console := console st @ [LogServicesFrom (from' evt)]\<rparr>;
                  st2 = st1\<lparr>datastore := datastore st1 @ [Monitor_upsert (from' evt) services]\<rparr>
              in services_loop (from' evt) (js_elements bi services) st2))
      else if topic evt = ''/ibp/healthCheck'' then
        (case JSON_parse bi (data evt) of
           Inl e \<Rightarrow> (Inl e, st)
         | Inr record'' \<Rightarrow>
             (case js_prop record'' ''serviceUrl'' of
                Inl e \<Rightarrow> (Inl e, st)
              | Inr url \<Rightarrow>
                  (case js_prop record'' ''level'' of
                     Inl e \<Rightarrow> (Inl e, st)
                   | Inr lvl \<Rightarrow>
                       (let model = \<lparr>g_monitorId = from' evt, g_serviceUrl = url,
                                     g_level = (if js_truthy lvl then lvl else Some (JStr ''info'')),
                                     g_source = ''gossip'', g_record = record''\<rparr>;
                            st1 = st\<lparr>console := console st @ [LogHealthCheckFrom (from' evt) url]\<rparr>
                        in (Inr (), st1\<lparr>datastore := datastore st1 @ [HealthCheck_create model]\<rparr>)))))
      else (Inr (), st\<lparr>console := console st @ [LogReceived (data evt) (from' evt) (topic evt)]\<rparr>))"

text \<open>The HealthCheck rows a sequence of datastore operations creates.\<close>

fun created_rows :: "ds_op list \<Rightarrow> gossip_model list" where
  "created_rows [] = []"
| "created_rows (HealthCheck_create m # ops) = m # created_rows ops"
| "created_rows (_ # ops) = created_rows ops"

text \<open>The member \<open>k\<close> of a decoded object, \<^verbatim>\<open>undefined\<close> when it has none.\<close>

fun json_member :: "json \<Rightarrow> string \<Rightarrow> json option" where
  "json_member (JObj kvs) k = map_of kvs k"
| "json_member _ k = None"

fun is_object :: "json \<Rightarrow> bool" where
  "is_object (JObj _) = True"
| "is_object _ = False"

section \<open>Concrete inputs\<close>

text \<open>
  The values at which the theorems below are instantiated: a configuration with alerting
  switched on, health checks of two members of one service, the check job of the
  end-to-end scenario (\<^verbatim>\<open>subdomain = "rpc-test"\<close>, address \<^verbatim>\<open>10.0.0.5\<close>), check
  functions that always fail, and gossip payloads.
\<close>

definition example_config :: config where
  "example_config = default_config\<lparr>alertsEngine := (alertsEngine default_config)\<lparr>enabled := True\<rparr>\<rparr>"

definition zero_sla_config :: config where
  "zero_sla_config = example_config\<lparr>cfg_performance := \<lparr>sla = 0\<rparr>\<rparr>"

definition example_check :: "string \<Rightarrow> string \<Rightarrow> int \<Rightarrow> int \<Rightarrow> real \<Rightarrow> nat \<Rightarrow> int \<Rightarrow> health_check" where
  "example_check member st cb fb perf ident created =
     \<lparr>monitorId = ''monitor-1'', serviceId = ''polkadot-rpc'', memberId = member,
      peerId = Some ''12D3KooW'', source = ''check'', type' = ''service_check'',
      status = Some st, responseTimeMs = Some perf,
      record' =
        \<lparr>rec_monitorId = ''monitor-1'', rec_memberId = member, rec_serviceId = ''polkadot-rpc'',
         endpoint = ''wss://rpc.dotters.network/polkadot'', ipAddress = Some ''10.0.0.5'',
         ip_address = None, rec_chain = Some ''Polkadot'', chainType = Some ''Live'',
         health = Some ''ok'',
         syncState = Some \<lparr>startingBlock = 0, currentBlock = cb, highestBlock = cb\<rparr>,
         finalizedBlock = Some fb, archiveState = None, version = Some ''1.0.0'',
         error = None, performance = perf\<rparr>,
      hc_id = ident, createdAt = created\<rparr>"

text \<open>The HealthCheck row that persists a check result under an id and a creation time.\<close>

definition persisted :: "check_result \<Rightarrow> nat \<Rightarrow> int \<Rightarrow> health_check" where
  "persisted r i c = check_result.extend r (health_check.fields i c)"

definition example_job :: job_data where
  "example_job =
     \<lparr>subdomain = Some ''rpc-test'',
      member' = \<lparr>member_id = ''member-a'', serviceIpAddress = ''10.0.0.5''\<rparr>,
      service' = \<lparr>service_id = ''polkadot-rpc'', chainId = Some ''polkadot'',
                  serviceUrl = ''wss://rpc.dotters.network/polkadot''\<rparr>,
      job_monitorId = ''monitor-1''\<rparr>"

definition connect_timeout :: js_error where
  "connect_timeout = \<lparr>err_name = ''Error'', err_message = ''connect ETIMEDOUT''\<rparr>"

definition rpc_rejection :: js_error where
  "rpc_rejection = \<lparr>err_name = ''RpcError'', err_message = ''Method not found''\<rparr>"

definition always_transient :: check_fn where
  "always_transient job tr = Inl connect_timeout"

definition always_rejected :: check_fn where
  "always_rejected job tr = Inl rpc_rejection"

definition unreachable_rpc :: "job_data \<Rightarrow> event list \<Rightarrow> js_error + node_facts" where
  "unreachable_rpc job tr = Inl connect_timeout"

definition answering_rpc :: "real \<Rightarrow> job_data \<Rightarrow> event list \<Rightarrow> js_error + node_facts" where
  "answering_rpc timing job tr =
     Inr \<lparr>nf_peerId = ''12D3KooW'', nf_chain = ''Polkadot'', nf_chainType = ''Live'',
          start = 0, end' = timing, nf_health = ''ok'',
          nf_syncState = \<lparr>startingBlock = 0, currentBlock = 100, highestBlock = 100\<rparr>,
          nf_finalizedBlock = 98, nf_version = ''1.0.0'', random = 0, nf_specVersion = ''1''\<rparr>"

definition invalid_address_job :: job_data where
  "invalid_address_job =
     example_job\<lparr>member' := \<lparr>member_id = ''member-a'', serviceIpAddress = ''not-an-ip''\<rparr>\<rparr>"

text \<open>
  A platform for the concrete inputs: an address is accepted when it is four decimal
  numbers from 0 to 255 without leading zeros, separated by dots; the resolver knows no
  name; the operations on doubles are the exact ones, with which they agree on the values
  used below.
\<close>

fun split_dots :: "string \<Rightarrow> string list" where
  "split_dots [] = [[]]"
| "split_dots (c # cs) =
     (if c = CHR ''.'' then [] # split_dots cs
      else (case split_dots cs of [] \<Rightarrow> [[c]] | part # parts \<Rightarrow> (c # part) # parts))"

definition digit_value :: "char \<Rightarrow> nat option" where
  "digit_value c = map_of (zip ''0123456789'' [0, 1, 2, 3, 4, 5, 6, 7, 8, 9]) c"

fun decimal :: "nat \<Rightarrow> string \<Rightarrow> nat option" where
  "decimal acc [] = Some acc"
| "decimal acc (c # cs) = (case digit_value c of None \<Rightarrow> None | Some d \<Rightarrow> decimal (10 * acc + d) cs)"

definition is_octet :: "string \<Rightarrow> bool" where
  "is_octet part =
     (part \<noteq> [] \<and> (length part = 1 \<or> hd part \<noteq> CHR ''0'')
      \<and> (case decimal 0 part of None \<Rightarrow> False | Some n \<Rightarrow> n \<le> 255))"

definition isIPv4_literal :: "string \<Rightarrow> bool" where
  "isIPv4_literal ip = (length (split_dots ip) = 4 \<and> list_all is_octet (split_dots ip))"

definition example_platform :: platform where
  "example_platform =
     \<lparr>isIP = isIPv4_literal, resolve = (\<lambda>domain. None),
      minus_double = (\<lambda>a b. a - b), times_double = (\<lambda>a b. a * b), divide_double = (\<lambda>a b. a / b)\<rparr>"

definition services_payload :: string where
  \<open>services_payload = ''[{"serviceUrl":"wss://a","chainId":"polkadot"}]''\<close>

definition level_false_payload :: string where
  \<open>level_false_payload = ''{"level":false}''\<close>

definition services_decoded :: json where
  "services_decoded = JArr [JObj [(''serviceUrl'', JStr ''wss://a''), (''chainId'', JStr ''polkadot'')]]"

definition syntax_error :: js_error where
  "syntax_error = \<lparr>err_name = ''SyntaxError'', err_message = ''Unexpected token''\<rparr>"

definition example_builtins :: builtins where
  "example_builtins =
     \<lparr>JSON_parse = (\<lambda>s. if s = services_payload then Inr services_decoded
                         else if s = ''{}'' then Inr (JObj [])
                         else if s = ''null'' then Inr JNull
                         else if s = level_false_payload then Inr (JObj [(''level'', JBool False)])
                         else Inl syntax_error),
      ToNumber = (\<lambda>v. None)\<rparr>"

definition empty_state :: handler_state where
  "empty_state = \<lparr>datastore = [], console = []\<rparr>"

definition gossip :: "string \<Rightarrow> string \<Rightarrow> message_event" where
  "gossip tp payload = \<lparr>topic = tp, from' = ''P1'', data = payload\<rparr>"

section \<open>Properties of the alerts engine\<close>

text \<open>
  The simplifier's conversion of list comprehensions under \<open>set\<close> does not apply to the
  nested conditionals of the rule bodies and stops the simplifier there; it is not used.
\<close>

declare TrueI [simproc del: list_to_set_comprehension]

lemma findOne_None: "(findOne wh rows = None) = (\<forall>r\<in>set rows. \<not> wh r)"
proof -
  have "(sort_key (\<lambda>h. - createdAt h) (filter wh rows) = []) = (filter wh rows = [])"
    by (metis length_0_conv length_sort)
  then show ?thesis
    by (auto simp: findOne_def filter_empty_conv split: list.splits)
qed

lemma findOne_Some:
  assumes "findOne wh rows = Some h"
  shows "h \<in> set rows \<and> wh h \<and> (\<forall>r\<in>set rows. wh r \<longrightarrow> createdAt r \<le> createdAt h)"
proof -
  from assms obtain rest where s: "sort_key (\<lambda>h. - createdAt h) (filter wh rows) = h # rest"
    by (auto simp: findOne_def split: list.splits)
  have "set (h # rest) = set (filter wh rows)"
    using s by (metis set_sort)
  then have mem: "h \<in> set rows" "wh h" and all: "\<forall>r\<in>set rows. wh r \<longrightarrow> r \<in> set (h # rest)"
    by auto
  have "sorted (map (\<lambda>h. - createdAt h) (h # rest))"
    using s by (metis sorted_sort_key)
  then have "\<forall>r\<in>set (h # rest). createdAt r \<le> createdAt h"
    by auto
  with mem all show ?thesis by blast
qed

lemma jobs_with_code_append: "jobs_with_code c (a @ b) = jobs_with_code c a @ jobs_with_code c b"
  by (simp add: jobs_with_code_def)

lemma jobs_with_code_same: "\<forall>q\<in>set qs. code (q_data q) = k \<Longrightarrow> jobs_with_code k qs = map q_data qs"
  by (simp add: jobs_with_code_def)

lemma jobs_with_code_other: "\<forall>q\<in>set qs. code (q_data q) = k \<Longrightarrow> c \<noteq> k \<Longrightarrow> jobs_with_code c qs = []"
  by (auto simp: jobs_with_code_def filter_empty_conv)

lemma rule100_code: "q \<in> set (rule100 cfg cur) \<Longrightarrow> code (q_data q) = 100"
  by (cases "error (record' cur)")
     (auto simp: rule100_def queue_add_def ALERT_CODE_100_def split: if_splits)

lemma rule101_job:
  assumes "q \<in> set (rule101 cfg cur prev other)"
  shows "code (q_data q) = 101 \<and> severity (q_data q) = ''high''
         \<and> (\<exists>p. prev = Some p \<and> healthChecks (q_data q) = [cur, p])"
proof -
  obtain st p om where a: "status cur = Some st" "prev = Some p" "other = Some om"
    using assms by (cases "status cur"; cases prev; cases other) (simp_all add: rule101_def)
  obtain ps cs os where b: "syncState (record' p) = Some ps" "syncState (record' cur) = Some cs"
      "syncState (record' om) = Some os"
    using assms a
    by (cases "syncState (record' p)"; cases "syncState (record' cur)"; cases "syncState (record' om)")
       (simp_all add: rule101_def split: if_splits)
  show ?thesis
    using assms a b
    by (simp add: rule101_def queue_add_def ALERT_CODE_101_def SEVERITY_HIGH_def split: if_splits)
qed

lemma rule101_length: "length (rule101 cfg cur prev other) \<le> 1"
  by (cases "status cur"; cases prev; cases other;
      cases "syncState (record' (the prev))"; cases "syncState (record' cur)";
      cases "syncState (record' (the other))")
     (simp_all add: rule101_def)

lemma rule101_fires:
  "(rule101 cfg cur prev other \<noteq> []) =
   (\<exists>p om ps cs os. prev = Some p \<and> other = Some om
      \<and> status cur = Some ''success'' \<and> status p = Some ''success'' \<and> status om = Some ''success''
      \<and> syncState (record' p) = Some ps \<and> syncState (record' cur) = Some cs
      \<and> syncState (record' om) = Some os
      \<and> currentBlock ps = currentBlock cs \<and> currentBlock os \<noteq> currentBlock cs)"
proof (cases "\<exists>st p om. status cur = Some st \<and> prev = Some p \<and> other = Some om")
  case False
  have "rule101 cfg cur prev other = []"
    using False by (cases "status cur"; cases prev; cases other) (simp_all add: rule101_def)
  with False show ?thesis by auto
next
  case True
  then obtain st p om where a: "status cur = Some st" "prev = Some p" "other = Some om"
    by blast
  show ?thesis
    using a
    by (cases "syncState (record' p)"; cases "syncState (record' cur)"; cases "syncState (record' om)")
       (auto simp: rule101_def)
qed

lemma rule102_job:
  "q \<in> set (rule102 cfg cur) \<Longrightarrow>
   code (q_data q) = 102 \<and> severity (q_data q) = ''medium'' \<and> healthChecks (q_data q) = [cur]"
  by (cases "syncState (record' cur)"; cases "finalizedBlock (record' cur)")
     (auto simp: rule102_def queue_add_def ALERT_CODE_102_def SEVERITY_MEDIUM_def Let_def split: if_splits)

lemma rule102_length: "length (rule102 cfg cur) \<le> 1"
  by (cases "syncState (record' cur)"; cases "finalizedBlock (record' cur)")
     (simp_all add: rule102_def Let_def)

lemma rule102_fires:
  "(rule102 cfg cur \<noteq> []) =
   (status cur = Some ''success''
    \<and> (\<exists>cs fb. syncState (record' cur) = Some cs \<and> finalizedBlock (record' cur) = Some fb
          \<and> currentBlock cs - fb \<ge> blockDrift (thresholds (alertsEngine cfg))))"
  by (cases "syncState (record' cur)"; cases "finalizedBlock (record' cur)")
     (auto simp: rule102_def Let_def)

lemma rule103_job:
  "q \<in> set (rule103 cfg cur) \<Longrightarrow>
   code (q_data q) = 103 \<and> severity (q_data q) = ''low'' \<and> healthChecks (q_data q) = [cur]"
  by (auto simp: rule103_def queue_add_def ALERT_CODE_103_def SEVERITY_LOW_def split: if_splits)

lemma rule103_length: "length (rule103 cfg cur) \<le> 1"
  by (simp add: rule103_def)

lemma rule103_fires:
  "(rule103 cfg cur \<noteq> []) =
   (status cur = Some ''success'' \<and> performance (record' cur) > sla (cfg_performance cfg))"
  by (simp add: rule103_def)

lemma run_enabled:
  "enabled (alertsEngine cfg) \<Longrightarrow>
   run cfg t1 t2 t3 db cur =
     rule100 cfg cur
     @ rule101 cfg cur (previousHealthCheck t1 db cur) (otherMemberHealthCheck t2 t3 db cur)
     @ rule102 cfg cur @ rule103 cfg cur"
  by (simp add: run_def)

lemma run_jobs_101:
  "enabled (alertsEngine cfg) \<Longrightarrow>
   jobs_with_code 101 (run cfg t1 t2 t3 db cur) =
     map q_data (rule101 cfg cur (previousHealthCheck t1 db cur) (otherMemberHealthCheck t2 t3 db cur))"
  using jobs_with_code_other[of "rule100 cfg cur" 100 101]
        jobs_with_code_other[of "rule102 cfg cur" 102 101]
        jobs_with_code_other[of "rule103 cfg cur" 103 101]
        jobs_with_code_same[of "rule101 cfg cur (previousHealthCheck t1 db cur) (otherMemberHealthCheck t2 t3 db cur)" 101]
  by (simp add: run_enabled jobs_with_code_append rule100_code rule101_job rule102_job rule103_job)

lemma run_jobs_102:
  "enabled (alertsEngine cfg) \<Longrightarrow>
   jobs_with_code 102 (run cfg t1 t2 t3 db cur) = map q_data (rule102 cfg cur)"
  using jobs_with_code_other[of "rule100 cfg cur" 100 102]
        jobs_with_code_other[of "rule101 cfg cur (previousHealthCheck t1 db cur) (otherMemberHealthCheck t2 t3 db cur)" 101 102]
        jobs_with_code_other[of "rule103 cfg cur" 103 102]
        jobs_with_code_same[of "rule102 cfg cur" 102]
  by (simp add: run_enabled jobs_with_code_append rule100_code rule101_job rule102_job rule103_job)

lemma run_jobs_103:
  "enabled (alertsEngine cfg) \<Longrightarrow>
   jobs_with_code 103 (run cfg t1 t2 t3 db cur) = map q_data (rule103 cfg cur)"
  using jobs_with_code_other[of "rule100 cfg cur" 100 103]
        jobs_with_code_other[of "rule101 cfg cur (previousHealthCheck t1 db cur) (otherMemberHealthCheck t2 t3 db cur)" 101 103]
        jobs_with_code_other[of "rule102 cfg cur" 102 103]
        jobs_with_code_same[of "rule103 cfg cur" 103]
  by (simp add: run_enabled jobs_with_code_append rule100_code rule101_job rule102_job rule103_job)

text \<open>
  Claim C1. With alerting enabled, \<^verbatim>\<open>run\<close> queues exactly one job of code 101 if and only
  if the query for the previous check (same member and service, status success, created
  more than 60 seconds before the clock reading, latest first) and the query for another
  member's check (same service, other member, status success, created between 10 minutes
  and 60 seconds before the clock readings) both find a row, the three checks have status
  success and a defined \<open>syncState\<close>, the previous check's current block equals the new
  check's, and the other member's differs. Otherwise it queues no such job. The job
  carries \<open>healthChecks = [current, previous]\<close>. Each query finds a row exactly when the
  table has a row that satisfies its \<^verbatim>\<open>where\<close> clause, and the row it finds is a row of
  the table that satisfies the clause and is the latest such row.
\<close>

theorem rule_101_stalled_chain:
  assumes "enabled (alertsEngine cfg)"
  shows "(length (jobs_with_code 101 (run cfg t1 t2 t3 db cur)) = 1) =
           (\<exists>p om ps cs os.
              previousHealthCheck t1 db cur = Some p \<and> otherMemberHealthCheck t2 t3 db cur = Some om
              \<and> status cur = Some ''success'' \<and> status p = Some ''success'' \<and> status om = Some ''success''
              \<and> syncState (record' p) = Some ps \<and> syncState (record' cur) = Some cs
              \<and> syncState (record' om) = Some os
              \<and> currentBlock ps = currentBlock cs \<and> currentBlock os \<noteq> currentBlock cs)
       \<and> (length (jobs_with_code 101 (run cfg t1 t2 t3 db cur)) \<noteq> 1
            \<longrightarrow> jobs_with_code 101 (run cfg t1 t2 t3 db cur) = [])
       \<and> (\<forall>j\<in>set (jobs_with_code 101 (run cfg t1 t2 t3 db cur)).
             \<exists>p. previousHealthCheck t1 db cur = Some p \<and> healthChecks j = [cur, p])
       \<and> ((\<exists>p. previousHealthCheck t1 db cur = Some p) =
            (\<exists>r\<in>set db. memberId r = memberId cur \<and> serviceId r = serviceId cur
                \<and> status r = Some ''success'' \<and> createdAt r < t1 - 60 * 1000))
       \<and> ((\<exists>om. otherMemberHealthCheck t2 t3 db cur = Some om) =
            (\<exists>r\<in>set db. memberId r \<noteq> memberId cur \<and> serviceId r = serviceId cur
                \<and> status r = Some ''success'' \<and> createdAt r < t2 - 60 * 1000
                \<and> createdAt r > t3 - 10 * 60 * 1000))
       \<and> (\<forall>p. previousHealthCheck t1 db cur = Some p \<longrightarrow>
             p \<in> set db \<and> memberId p = memberId cur \<and> serviceId p = serviceId cur
             \<and> status p = Some ''success'' \<and> createdAt p < t1 - 60 * 1000
             \<and> (\<forall>r\<in>set db. memberId r = memberId cur \<and> serviceId r = serviceId cur
                    \<and> status r = Some ''success'' \<and> createdAt r < t1 - 60 * 1000
                  \<longrightarrow> createdAt r \<le> createdAt p))
       \<and> (\<forall>om. otherMemberHealthCheck t2 t3 db cur = Some om \<longrightarrow>
             om \<in> set db \<and> memberId om \<noteq> memberId cur \<and> serviceId om = serviceId cur
             \<and> status om = Some ''success'' \<and> createdAt om < t2 - 60 * 1000
             \<and> createdAt om > t3 - 10 * 60 * 1000
             \<and> (\<forall>r\<in>set db. memberId r \<noteq> memberId cur \<and> serviceId r = serviceId cur
                    \<and> status r = Some ''success'' \<and> createdAt r < t2 - 60 * 1000
                    \<and> createdAt r > t3 - 10 * 60 * 1000
                  \<longrightarrow> createdAt r \<le> createdAt om))"
proof -
  let ?r = "rule101 cfg cur (previousHealthCheck t1 db cur) (otherMemberHealthCheck t2 t3 db cur)"
  have jobs: "jobs_with_code 101 (run cfg t1 t2 t3 db cur) = map q_data ?r"
    using assms by (rule run_jobs_101)
  have len: "length ?r \<le> 1" by (rule rule101_length)
  have one: "(length ?r = 1) = (?r \<noteq> [])"
    using len by (cases ?r) auto
  have c1: "(length (jobs_with_code 101 (run cfg t1 t2 t3 db cur)) = 1) =
           (\<exists>p om ps cs os.
              previousHealthCheck t1 db cur = Some p \<and> otherMemberHealthCheck t2 t3 db cur = Some om
              \<and> status cur = Some ''success'' \<and> status p = Some ''success'' \<and> status om = Some ''success''
              \<and> syncState (record' p) = Some ps \<and> syncState (record' cur) = Some cs
              \<and> syncState (record' om) = Some os
              \<and> currentBlock ps = currentBlock cs \<and> currentBlock os \<noteq> currentBlock cs)"
    unfolding jobs length_map one by (rule rule101_fires)
  have c2: "length (jobs_with_code 101 (run cfg t1 t2 t3 db cur)) \<noteq> 1
            \<longrightarrow> jobs_with_code 101 (run cfg t1 t2 t3 db cur) = []"
    unfolding jobs using one by simp
  have c3: "\<forall>j\<in>set (jobs_with_code 101 (run cfg t1 t2 t3 db cur)).
             \<exists>p. previousHealthCheck t1 db cur = Some p \<and> healthChecks j = [cur, p]"
    unfolding jobs using rule101_job[of _ cfg cur "previousHealthCheck t1 db cur" "otherMemberHealthCheck t2 t3 db cur"]
    by auto
  have e1: "(\<exists>p. previousHealthCheck t1 db cur = Some p) =
            (\<exists>r\<in>set db. memberId r = memberId cur \<and> serviceId r = serviceId cur
                \<and> status r = Some ''success'' \<and> createdAt r < t1 - 60 * 1000)"
    unfolding previousHealthCheck_def
    using findOne_None[of "\<lambda>h. memberId h = memberId cur \<and> serviceId h = serviceId cur
                 \<and> status h = Some ''success'' \<and> createdAt h < t1 - 60 * 1000" db]
    by auto
  have e2: "(\<exists>om. otherMemberHealthCheck t2 t3 db cur = Some om) =
            (\<exists>r\<in>set db. memberId r \<noteq> memberId cur \<and> serviceId r = serviceId cur
                \<and> status r = Some ''success'' \<and> createdAt r < t2 - 60 * 1000
                \<and> createdAt r > t3 - 10 * 60 * 1000)"
    unfolding otherMemberHealthCheck_def
    using findOne_None[of "\<lambda>h. memberId h \<noteq> memberId cur \<and> serviceId h = serviceId cur
                 \<and> status h = Some ''success'' \<and> createdAt h < t2 - 60 * 1000
                 \<and> createdAt h > t3 - 10 * 60 * 1000" db]
    by auto
  have c4: "\<forall>p. previousHealthCheck t1 db cur = Some p \<longrightarrow>
             p \<in> set db \<and> memberId p = memberId cur \<and> serviceId p = serviceId cur
             \<and> status p = Some ''success'' \<and> createdAt p < t1 - 60 * 1000
             \<and> (\<forall>r\<in>set db. memberId r = memberId cur \<and> serviceId r = serviceId cur
                    \<and> status r = Some ''success'' \<and> createdAt r < t1 - 60 * 1000
                  \<longrightarrow> createdAt r \<le> createdAt p)"
    unfolding previousHealthCheck_def by (auto dest!: findOne_Some)
  have c5: "\<forall>om. otherMemberHealthCheck t2 t3 db cur = Some om \<longrightarrow>
             om \<in> set db \<and> memberId om \<noteq> memberId cur \<and> serviceId om = serviceId cur
             \<and> status om = Some ''success'' \<and> createdAt om < t2 - 60 * 1000
             \<and> createdAt om > t3 - 10 * 60 * 1000
             \<and> (\<forall>r\<in>set db. memberId r \<noteq> memberId cur \<and> serviceId r = serviceId cur
                    \<and> status r = Some ''success'' \<and> createdAt r < t2 - 60 * 1000
                    \<and> createdAt r > t3 - 10 * 60 * 1000
                  \<longrightarrow> createdAt r \<le> createdAt om)"
    unfolding otherMemberHealthCheck_def by (auto dest!: findOne_Some)
  from c1 c2 c3 e1 e2 c4 c5 show ?thesis by blast
qed

text \<open>
  A history with two earlier successes of the member (the later one at the same block) and
  two recent successes of another member (the later one at another block): one job.
\<close>

theorem rule_101_stalled_chain_witness:
  "enabled (alertsEngine example_config)
   \<and> length (jobs_with_code 101
        (run example_config 1000000 1000000 1000000
           [example_check ''member-a'' ''success'' 90 88 110 1 760000,
            example_check ''member-a'' ''success'' 100 98 110 2 880000,
            example_check ''member-b'' ''success'' 100 98 100 3 850000,
            example_check ''member-b'' ''success'' 105 103 100 4 910000,
            example_check ''member-a'' ''success'' 100 98 120 5 999000]
           (example_check ''member-a'' ''success'' 100 98 120 5 999000))) = 1"
proof -
  let ?prev = "example_check ''member-a'' ''success'' 100 98 110 2 880000"
  let ?other = "example_check ''member-b'' ''success'' 105 103 100 4 910000"
  let ?cur = "example_check ''member-a'' ''success'' 100 98 120 5 999000"
  let ?db = "[example_check ''member-a'' ''success'' 90 88 110 1 760000, ?prev,
              example_check ''member-b'' ''success'' 100 98 100 3 850000, ?other, ?cur]"
  have en: "enabled (alertsEngine example_config)"
    by (simp add: example_config_def default_config_def)
  note inst = rule_101_stalled_chain[OF en, of 1000000 1000000 1000000 ?db ?cur]
  have p: "previousHealthCheck 1000000 ?db ?cur = Some ?prev"
    by (simp add: previousHealthCheck_def findOne_def example_check_def)
  have om: "otherMemberHealthCheck 1000000 1000000 ?db ?cur = Some ?other"
    by (simp add: otherMemberHealthCheck_def findOne_def example_check_def)
  have cond: "\<exists>p om ps cs os.
              previousHealthCheck 1000000 ?db ?cur = Some p
              \<and> otherMemberHealthCheck 1000000 1000000 ?db ?cur = Some om
              \<and> status ?cur = Some ''success'' \<and> status p = Some ''success'' \<and> status om = Some ''success''
              \<and> syncState (record' p) = Some ps \<and> syncState (record' ?cur) = Some cs
              \<and> syncState (record' om) = Some os
              \<and> currentBlock ps = currentBlock cs \<and> currentBlock os \<noteq> currentBlock cs"
    unfolding p om by (simp add: example_check_def)
  from inst cond en show ?thesis by blast
qed

text \<open>
  Claim C4. With alerting enabled, \<^verbatim>\<open>run\<close> queues a job of code 102 if and only if the new
  check has status success, a defined \<open>syncState\<close>, and its current block minus its finalized
  block is at least the configured \<open>blockDrift\<close> threshold; the job is unique, has severity
  medium and carries the new check. In particular a drift equal to the threshold fires.
\<close>

theorem rule_102_block_drift:
  assumes "enabled (alertsEngine cfg)"
  shows "(jobs_with_code 102 (run cfg t1 t2 t3 db cur) \<noteq> []) =
           (status cur = Some ''success''
            \<and> (\<exists>cs fb. syncState (record' cur) = Some cs \<and> finalizedBlock (record' cur) = Some fb
                  \<and> currentBlock cs - fb \<ge> blockDrift (thresholds (alertsEngine cfg))))
       \<and> length (jobs_with_code 102 (run cfg t1 t2 t3 db cur)) \<le> 1
       \<and> (\<forall>j\<in>set (jobs_with_code 102 (run cfg t1 t2 t3 db cur)).
             code j = 102 \<and> severity j = ''medium'' \<and> healthChecks j = [cur])
       \<and> (status cur = Some ''success''
            \<and> (\<exists>cs fb. syncState (record' cur) = Some cs \<and> finalizedBlock (record' cur) = Some fb
                  \<and> currentBlock cs - fb = blockDrift (thresholds (alertsEngine cfg)))
          \<longrightarrow> jobs_with_code 102 (run cfg t1 t2 t3 db cur) \<noteq> [])"
proof -
  have jobs: "jobs_with_code 102 (run cfg t1 t2 t3 db cur) = map q_data (rule102 cfg cur)"
    using assms by (rule run_jobs_102)
  have c1: "(jobs_with_code 102 (run cfg t1 t2 t3 db cur) \<noteq> []) =
           (status cur = Some ''success''
            \<and> (\<exists>cs fb. syncState (record' cur) = Some cs \<and> finalizedBlock (record' cur) = Some fb
                  \<and> currentBlock cs - fb \<ge> blockDrift (thresholds (alertsEngine cfg))))"
    unfolding jobs using rule102_fires[of cfg cur] by simp
  have c2: "length (jobs_with_code 102 (run cfg t1 t2 t3 db cur)) \<le> 1"
    unfolding jobs using rule102_length[of cfg cur] by simp
  have c3: "\<forall>j\<in>set (jobs_with_code 102 (run cfg t1 t2 t3 db cur)).
             code j = 102 \<and> severity j = ''medium'' \<and> healthChecks j = [cur]"
    unfolding jobs using rule102_job[of _ cfg cur] by auto
  from c1 c2 c3 show ?thesis by auto
qed

theorem rule_102_block_drift_witness:
  "enabled (alertsEngine example_config)
   \<and> jobs_with_code 102 (run example_config 0 0 0 [] (example_check ''member-a'' ''success'' 120 100 120 3 0)) \<noteq> []
   \<and> jobs_with_code 102 (run example_config 0 0 0 [] (example_check ''member-a'' ''success'' 119 100 120 3 0)) = []"
proof -
  have en: "enabled (alertsEngine example_config)"
    by (simp add: example_config_def default_config_def)
  show ?thesis
    using en rule_102_block_drift[OF en, of 0 0 0 "[]" "example_check ''member-a'' ''success'' 120 100 120 3 0"]
      rule_102_block_drift[OF en, of 0 0 0 "[]" "example_check ''member-a'' ''success'' 119 100 120 3 0"]
    by (simp add: example_check_def example_config_def default_config_def)
qed

text \<open>
  Claim C5. With alerting enabled, \<^verbatim>\<open>run\<close> queues a job of code 103 if and only if the new
  check has status success and its \<open>performance\<close> is strictly greater than the configured
  SLA; the job is unique, has severity low and carries the new check. A performance equal to
  the SLA queues no such job.
\<close>

theorem rule_103_slow_response:
  assumes "enabled (alertsEngine cfg)"
  shows "(jobs_with_code 103 (run cfg t1 t2 t3 db cur) \<noteq> []) =
           (status cur = Some ''success'' \<and> performance (record' cur) > sla (cfg_performance cfg))
       \<and> length (jobs_with_code 103 (run cfg t1 t2 t3 db cur)) \<le> 1
       \<and> (\<forall>j\<in>set (jobs_with_code 103 (run cfg t1 t2 t3 db cur)).
             code j = 103 \<and> severity j = ''low'' \<and> healthChecks j = [cur])
       \<and> (performance (record' cur) = sla (cfg_performance cfg)
          \<longrightarrow> jobs_with_code 103 (run cfg t1 t2 t3 db cur) = [])"
proof -
  have jobs: "jobs_with_code 103 (run cfg t1 t2 t3 db cur) = map q_data (rule103 cfg cur)"
    using assms by (rule run_jobs_103)
  have c1: "(jobs_with_code 103 (run cfg t1 t2 t3 db cur) \<noteq> []) =
           (status cur = Some ''success'' \<and> performance (record' cur) > sla (cfg_performance cfg))"
    unfolding jobs using rule103_fires[of cfg cur] by simp
  have c2: "length (jobs_with_code 103 (run cfg t1 t2 t3 db cur)) \<le> 1"
    unfolding jobs using rule103_length[of cfg cur] by simp
  have c3: "\<forall>j\<in>set (jobs_with_code 103 (run cfg t1 t2 t3 db cur)).
             code j = 103 \<and> severity j = ''low'' \<and> healthChecks j = [cur]"
    unfolding jobs using rule103_job[of _ cfg cur] by auto
  from c1 c2 c3 show ?thesis by auto
qed

theorem rule_103_slow_response_witness:
  "enabled (alertsEngine example_config)
   \<and> jobs_with_code 103 (run example_config 0 0 0 [] (example_check ''member-a'' ''success'' 100 98 501 3 0)) \<noteq> []
   \<and> jobs_with_code 103 (run example_config 0 0 0 [] (example_check ''member-a'' ''success'' 100 98 500 3 0)) = []"
proof -
  have en: "enabled (alertsEngine example_config)"
    by (simp add: example_config_def default_config_def)
  show ?thesis
    using en rule_103_slow_response[OF en, of 0 0 0 "[]" "example_check ''member-a'' ''success'' 100 98 501 3 0"]
      rule_103_slow_response[OF en, of 0 0 0 "[]" "example_check ''member-a'' ''success'' 100 98 500 3 0"]
    by (simp add: example_check_def example_config_def default_config_def)
qed

lemma rule100_not_error: "status cur \<noteq> Some ''error'' \<Longrightarrow> rule100 cfg cur = []"
  by (simp add: rule100_def)

lemma rule101_not_success: "status cur \<noteq> Some ''success'' \<Longrightarrow> rule101 cfg cur prev other = []"
  by (cases "status cur"; cases prev; cases other) (simp_all add: rule101_def)

lemma rule102_not_success: "status cur \<noteq> Some ''success'' \<Longrightarrow> rule102 cfg cur = []"
  by (simp add: rule102_def)

lemma rule103_not_success: "status cur \<noteq> Some ''success'' \<Longrightarrow> rule103 cfg cur = []"
  by (simp add: rule103_def)

lemma run_warning: "status cur = Some ''warning'' \<Longrightarrow> run cfg t1 t2 t3 db cur = []"
  by (simp add: run_def Let_def rule100_not_error rule101_not_success rule102_not_success rule103_not_success)

lemma persisted_status: "status (persisted r i c) = status r"
  by (simp add: persisted_def check_result.defs health_check.defs)

text \<open>
  Claim C9, as the code has it. A health check of status warning makes \<^verbatim>\<open>run\<close> queue no
  job at all, whatever the configuration and the history: rule 100 asks for status error,
  rules 101, 102 and 103 for status success. In particular, when an attempt of the executor
  gathers its facts and the response time it computes (\<^verbatim>\<open>end - start\<close> on doubles) is
  above the executor's threshold \<^verbatim>\<open>cfg.performance?.sla || 500\<close> (the configured SLA,
  500 when that is zero), \<^verbatim>\<open>performCheck\<close> gives a result of status warning whose
  \<open>performance\<close> is that response time, and no row that persists this result makes
  \<^verbatim>\<open>run\<close> queue a job, the slow-response job of rule 103 included.
\<close>

theorem warning_never_alerts:
  "(status cur = Some ''warning'' \<longrightarrow> run cfg t1 t2 t3 db cur = [])
   \<and> (\<forall>f. rpc job tr = Inr f
           \<and> minus_double pf (end' f) (start f)
               > (if sla (cfg_performance cfg) = 0 then 500 else sla (cfg_performance cfg))
        \<longrightarrow> (\<exists>r. performCheck cfg pf rpc job tr = Inr r \<and> status r = Some ''warning''
                \<and> performance (record' r) = minus_double pf (end' f) (start f)
                \<and> (\<forall>i c. run cfg t1 t2 t3 db (persisted r i c) = [])))"
proof -
  have a: "status cur = Some ''warning'' \<longrightarrow> run cfg t1 t2 t3 db cur = []"
    by (simp add: run_warning)
  have b: "\<exists>r. performCheck cfg pf rpc job tr = Inr r \<and> status r = Some ''warning''
                \<and> performance (record' r) = minus_double pf (end' f) (start f)
                \<and> (\<forall>i c. run cfg t1 t2 t3 db (persisted r i c) = [])"
    if f: "rpc job tr = Inr f"
      and slow: "minus_double pf (end' f) (start f)
                   > (if sla (cfg_performance cfg) = 0 then 500 else sla (cfg_performance cfg))"
    for f
  proof -
    obtain r where r: "performCheck cfg pf rpc job tr = Inr r"
      using f by (simp add: performCheck_def Let_def)
    have st: "status r = Some ''warning''"
      using r f slow by (auto simp: performCheck_def Let_def)
    have pf: "performance (record' r) = minus_double pf (end' f) (start f)"
      using r f by (auto simp: performCheck_def Let_def)
    have "\<forall>i c. run cfg t1 t2 t3 db (persisted r i c) = []"
      using st by (simp add: run_warning persisted_status)
    with r st pf show ?thesis by blast
  qed
  from a b show ?thesis by blast
qed

theorem warning_never_alerts_witness:
  "run example_config 0 0 0 [] (example_check ''member-a'' ''warning'' 100 50 900 3 0) = []
   \<and> (case performCheck example_config example_platform (answering_rpc 900) example_job [] of
         Inl e \<Rightarrow> False
       | Inr r \<Rightarrow> status r = Some ''warning'' \<and> run example_config 0 0 0 [] (persisted r 1 0) = [])"
proof -
  let ?f = "\<lparr>nf_peerId = ''12D3KooW'', nf_chain = ''Polkadot'', nf_chainType = ''Live'',
          start = 0, end' = 900, nf_health = ''ok'',
          nf_syncState = \<lparr>startingBlock = 0, currentBlock = 100, highestBlock = 100\<rparr>,
          nf_finalizedBlock = 98, nf_version = ''1.0.0'', random = 0, nf_specVersion = ''1''\<rparr>"
  note inst = warning_never_alerts[of "example_check ''member-a'' ''warning'' 100 50 900 3 0"
      example_config 0 0 0 "[]" "answering_rpc 900" example_job "[]" example_platform]
  have w: "status (example_check ''member-a'' ''warning'' 100 50 900 3 0) = Some ''warning''"
    by (simp add: example_check_def)
  have f: "answering_rpc 900 example_job [] = Inr ?f"
    by (simp add: answering_rpc_def)
  have slow: "minus_double example_platform (end' ?f) (start ?f)
      > (if sla (cfg_performance example_config) = 0 then 500 else sla (cfg_performance example_config))"
    by (simp add: example_config_def default_config_def example_platform_def)
  from inst w have first: "run example_config 0 0 0 [] (example_check ''member-a'' ''warning'' 100 50 900 3 0) = []"
    by blast
  from inst f slow obtain r where
    r: "performCheck example_config example_platform (answering_rpc 900) example_job [] = Inr r"
       "status r = Some ''warning''" "\<forall>i c. run example_config 0 0 0 [] (persisted r i c) = []"
    by blast
  from first r show ?thesis by simp
qed

text \<open>
  With the SLA configured as zero, a check that answers in 400 milliseconds exceeds the
  configured SLA; the executor compares it with 500 and gives it status success, and
  \<^verbatim>\<open>run\<close> queues the job of rule 103 for its row.
\<close>

theorem slow_check_zero_sla_counterexample:
  "(case performCheck zero_sla_config example_platform (answering_rpc 400) example_job [] of
      Inl e \<Rightarrow> False
    | Inr r \<Rightarrow> performance (record' r) > sla (cfg_performance zero_sla_config)
             \<and> status r = Some ''success''
             \<and> map code (jobs_with_code 103 (run zero_sla_config 0 0 0 [] (persisted r 1 0))) = [103])"
  by (simp add: performCheck_def answering_rpc_def zero_sla_config_def example_config_def default_config_def
      example_platform_def Let_def persisted_def check_result.defs health_check.defs run_def
      previousHealthCheck_def otherMemberHealthCheck_def findOne_def rule100_def rule101_def rule102_def
      rule103_def jobs_with_code_def queue_add_def ALERT_CODE_102_def ALERT_CODE_103_def example_job_def)

section \<open>Properties of the check executor\<close>

lemma attempts_append: "attempts (a @ b) = attempts a + attempts b"
  by (simp add: attempts_def)

lemma sleeps_append: "sleeps (a @ b) = sleeps a + sleeps b"
  by (simp add: sleeps_def)

lemma retryFn_success:
  "fn job (tr @ [JobLog [Txt ''retryAttempt '', IntP k]]) = Inr r \<Longrightarrow>
   retryFn fn job k interval tr = Some (r, tr @ [JobLog [Txt ''retryAttempt '', IntP k], Attempt None])"
  by (subst retryFn.simps) (simp add: Let_def)

lemma retryFn_rpc:
  "fn job (tr @ [JobLog [Txt ''retryAttempt '', IntP k]]) = Inl e \<Longrightarrow> err_name e = ''RpcError'' \<Longrightarrow>
   retryFn fn job k interval tr =
     Some (performCheckError e job,
           tr @ [JobLog [Txt ''retryAttempt '', IntP k], Attempt (Some e), JobLog [ErrP e], ConsoleLog [ErrP e]])"
  by (subst retryFn.simps) (simp add: Let_def)

lemma retryFn_last:
  "fn job (tr @ [JobLog [Txt ''retryAttempt '', IntP 0]]) = Inl e \<Longrightarrow>
   retryFn fn job 0 interval tr =
     Some (performCheckError e job,
           tr @ [JobLog [Txt ''retryAttempt '', IntP 0], Attempt (Some e), JobLog [ErrP e], ConsoleLog [ErrP e]])"
  by (subst retryFn.simps) (simp add: Let_def)

lemma retryFn_again:
  "fn job (tr @ [JobLog [Txt ''retryAttempt '', IntP k]]) = Inl e \<Longrightarrow> err_name e \<noteq> ''RpcError'' \<Longrightarrow> k \<noteq> 0 \<Longrightarrow>
   retryFn fn job k interval tr =
     retryFn fn job (k - 1) interval
       (tr @ [JobLog [Txt ''retryAttempt '', IntP k], Attempt (Some e), JobLog [ErrP e], ConsoleLog [ErrP e],
              Sleep interval])"
  by (subst retryFn.simps) (simp add: Let_def)

lemma retryFn_returns:
  "\<exists>r tr'. retryFn fn job (int n) interval tr = Some (r, tr @ tr')
      \<and> filter is_dns_change tr' = [] \<and> 1 \<le> attempts tr' \<and> attempts tr' \<le> n + 1"
proof (induction n arbitrary: tr)
  case 0
  show ?case
  proof (cases "fn job (tr @ [JobLog [Txt ''retryAttempt '', IntP 0]])")
    case (Inl e)
    then show ?thesis
      using retryFn_last[of fn job tr e interval] by (simp add: attempts_def)
  next
    case (Inr r)
    then show ?thesis
      using retryFn_success[of fn job tr 0 r interval] by (simp add: attempts_def)
  qed
next
  case (Suc n)
  let ?k = "int (Suc n)"
  show ?case
  proof (cases "fn job (tr @ [JobLog [Txt ''retryAttempt '', IntP ?k]])")
    case (Inr r)
    then show ?thesis
      using retryFn_success[of fn job tr ?k r interval] by (simp add: attempts_def)
  next
    case (Inl e)
    show ?thesis
    proof (cases "err_name e = ''RpcError''")
      case True
      with Inl show ?thesis
        using retryFn_rpc[of fn job tr ?k e interval] by (simp add: attempts_def)
    next
      case False
      let ?tr1 = "tr @ [JobLog [Txt ''retryAttempt '', IntP ?k], Attempt (Some e), JobLog [ErrP e],
                        ConsoleLog [ErrP e], Sleep interval]"
      have step: "retryFn fn job ?k interval tr = retryFn fn job (int n) interval ?tr1"
        using retryFn_again[of fn job tr ?k e interval] Inl False by simp
      from Suc.IH[of ?tr1] obtain r tr' where
        h: "retryFn fn job (int n) interval ?tr1 = Some (r, ?tr1 @ tr')"
           "filter is_dns_change tr' = []" "1 \<le> attempts tr'" "attempts tr' \<le> n + 1"
        by blast
      let ?ev = "[JobLog [Txt ''retryAttempt '', IntP ?k], Attempt (Some e), JobLog [ErrP e],
                  ConsoleLog [ErrP e], Sleep interval] @ tr'"
      have "retryFn fn job ?k interval tr = Some (r, tr @ ?ev)"
        using step h(1) by simp
      moreover have "filter is_dns_change ?ev = []" using h(2) by simp
      moreover have "1 \<le> attempts ?ev \<and> attempts ?ev \<le> Suc n + 1"
        using h(3,4) by (simp add: attempts_def)
      ultimately show ?thesis by blast
    qed
  qed
qed

lemma retryFn_transient:
  assumes "\<forall>tr. \<exists>e. fn job tr = Inl e \<and> err_name e \<noteq> ''RpcError''"
  shows "\<exists>e tr'. retryFn fn job (int n) interval tr = Some (performCheckError e job, tr @ tr')
      \<and> attempts tr' = n + 1 \<and> sleeps tr' = n
      \<and> last (filter is_attempt tr') = Attempt (Some e)"
proof (induction n arbitrary: tr)
  case 0
  from assms obtain e where e: "fn job (tr @ [JobLog [Txt ''retryAttempt '', IntP 0]]) = Inl e"
    by blast
  show ?case
    using retryFn_last[of fn job tr e interval] e by (simp add: attempts_def sleeps_def)
next
  case (Suc n)
  let ?k = "int (Suc n)"
  from assms obtain e where e: "fn job (tr @ [JobLog [Txt ''retryAttempt '', IntP ?k]]) = Inl e"
      and ne: "err_name e \<noteq> ''RpcError''"
    by blast
  let ?pre = "[JobLog [Txt ''retryAttempt '', IntP ?k], Attempt (Some e), JobLog [ErrP e],
               ConsoleLog [ErrP e], Sleep interval]"
  have step: "retryFn fn job ?k interval tr = retryFn fn job (int n) interval (tr @ ?pre)"
    using retryFn_again[of fn job tr ?k e interval] e ne by simp
  from Suc.IH[of "tr @ ?pre"] obtain e' tr' where
    h: "retryFn fn job (int n) interval (tr @ ?pre) = Some (performCheckError e' job, (tr @ ?pre) @ tr')"
       "attempts tr' = n + 1" "sleeps tr' = n" "last (filter is_attempt tr') = Attempt (Some e')"
    by blast
  have ne': "filter is_attempt tr' \<noteq> []"
    using h(2) by (auto simp: attempts_def)
  have "retryFn fn job ?k interval tr = Some (performCheckError e' job, tr @ (?pre @ tr'))"
    using step h(1) by simp
  moreover have "attempts (?pre @ tr') = Suc n + 1" using h(2) by (simp add: attempts_def)
  moreover have "sleeps (?pre @ tr') = Suc n" using h(3) by (simp add: sleeps_def)
  moreover have "last (filter is_attempt (?pre @ tr')) = Attempt (Some e')"
    using h(4) ne' by simp
  ultimately show ?case by blast
qed

lemma override_table_append:
  "override_table tab (a @ b) = override_table (override_table tab a) b"
  by (induction a arbitrary: tab) (auto split: event.splits)

lemma lookup_after_add:
  "\<exists>a. map_of (override_table [] (tr @ [DnsAdd d ip])) d = Some a"
  by (cases "map_of (override_table [] tr) d") (simp_all add: override_table_append map_add_def)

lemma setDNS_trace:
  "isIP pf ip \<Longrightarrow>
   \<exists>a. setDNS pf d ip tr =
     (Inr (), tr @ [DnsAdd d ip, DnsLookup d (Some a),
                    ConsoleLog [Txt d, Txt '' now resolves to '', Txt a, Txt '', and should be '', Txt ip]])"
proof -
  assume ok: "isIP pf ip"
  obtain a where "map_of (override_table [] (tr @ [DnsAdd d ip])) d = Some a"
    using lookup_after_add by blast
  then show ?thesis
    using ok by (simp add: setDNS_def lookupAsync_def)
qed

lemma setDNS_invalid:
  "\<not> isIP pf ip \<Longrightarrow>
   setDNS pf d ip tr = (Inl \<lparr>err_name = ''Error'', err_message = ''Invalid ip: '' @ ip\<rparr>, tr)"
  by (simp add: setDNS_def)

lemma clearDNS_trace:
  "\<exists>out post. clearDNS pf d ip tr =
       (out, tr @ [ConsoleLog [Txt ''removing eDns for '', Txt d], DnsRemove d ip] @ post)
     \<and> filter is_dns_change post = [] \<and> attempts post = 0"
  by (cases "map_of (override_table [] (tr @ [ConsoleLog [Txt ''removing eDns for '', Txt d], DnsRemove d ip])) d";
      cases "resolve pf d")
     (simp_all add: clearDNS_def lookupAsync_def attempts_def)

text \<open>
  Claim C2, as the code has it. When every call of the check function throws an error
  whose name is not \<^verbatim>\<open>RpcError\<close>, \<^verbatim>\<open>retryFn\<close> called with \<^verbatim>\<open>retriesLeft = 3\<close> returns:
  it makes exactly 4 attempts (the first one and 3 retries) with 3 sleeps between them, and
  its result is the error result built from the error of the last attempt, with status
  error, \<open>performance = -1\<close> and \<open>error\<close> holding that error's name and message.
\<close>

theorem retry_exhausts_budget:
  assumes "\<forall>tr. \<exists>e. fn job tr = Inl e \<and> err_name e \<noteq> ''RpcError''"
  shows "\<exists>e tr'. retryFn fn job 3 interval tr = Some (performCheckError e job, tr @ tr')
      \<and> attempts tr' = 4 \<and> sleeps tr' = 3
      \<and> last (filter is_attempt tr') = Attempt (Some e)
      \<and> status (performCheckError e job) = Some ''error''
      \<and> performance (record' (performCheckError e job)) = - 1
      \<and> error (record' (performCheckError e job)) = Some \<lparr>err_name = err_name e, err_message = err_message e\<rparr>"
proof -
  from retryFn_transient[where fn = fn and job = job and n = 3 and interval = interval and tr = tr] assms
  obtain e tr' where
    h: "retryFn fn job (int 3) interval tr = Some (performCheckError e job, tr @ tr')"
       "attempts tr' = 3 + 1" "sleeps tr' = 3" "last (filter is_attempt tr') = Attempt (Some e)"
    by blast
  have "retryFn fn job 3 interval tr = Some (performCheckError e job, tr @ tr')"
    using h(1) by simp
  moreover have "attempts tr' = 4" using h(2) by simp
  moreover have "status (performCheckError e job) = Some ''error''
      \<and> performance (record' (performCheckError e job)) = - 1
      \<and> error (record' (performCheckError e job)) = Some \<lparr>err_name = err_name e, err_message = err_message e\<rparr>"
    by (simp add: performCheckError_def)
  ultimately show ?thesis using h(3,4) by blast
qed

theorem retry_exhausts_budget_witness:
  "map_option (\<lambda>(r, tr). (status r, performance (record' r), attempts tr, sleeps tr))
     (retryFn always_transient example_job 3 1000 []) = Some (Some ''error'', - 1, 4, 3)"
proof -
  have a: "\<forall>tr. \<exists>e. always_transient example_job tr = Inl e \<and> err_name e \<noteq> ''RpcError''"
    by (simp add: always_transient_def connect_timeout_def)
  from retry_exhausts_budget[where fn = always_transient and job = example_job and interval = 1000 and tr = "[]"] a
  show ?thesis
    by auto
qed

text \<open>
  The check function that always throws a connection timeout is attempted 4 times under the
  budget 3, not 3 times.
\<close>

theorem retry_three_attempts_counterexample:
  "map_option (\<lambda>(r, tr). (status r, attempts tr)) (retryFn always_transient example_job 3 1000 [])
     = Some (Some ''error'', 4)"
  by (simp add: retryFn.simps always_transient_def connect_timeout_def attempts_def performCheckError_def)

text \<open>
  Claim C6. Whatever the budget \<^verbatim>\<open>retriesLeft\<close>, when the attempt that \<^verbatim>\<open>retryFn\<close> makes
  throws an error named \<^verbatim>\<open>RpcError\<close>, it returns the error result built from that error
  after this one attempt and without any sleep. (The check function is given the trace as
  it stands when it is called, after the log line of the attempt.)
\<close>

theorem rpc_error_not_retried:
  assumes "fn job (tr @ [JobLog [Txt ''retryAttempt '', IntP retriesLeft]]) = Inl e"
    and "err_name e = ''RpcError''"
  shows "\<exists>tr'. retryFn fn job retriesLeft interval tr = Some (performCheckError e job, tr @ tr')
      \<and> attempts tr' = 1 \<and> sleeps tr' = 0
      \<and> status (performCheckError e job) = Some ''error''
      \<and> error (record' (performCheckError e job)) = Some \<lparr>err_name = err_name e, err_message = err_message e\<rparr>"
proof -
  let ?ev = "[JobLog [Txt ''retryAttempt '', IntP retriesLeft], Attempt (Some e), JobLog [ErrP e], ConsoleLog [ErrP e]]"
  have "retryFn fn job retriesLeft interval tr = Some (performCheckError e job, tr @ ?ev)"
    using retryFn_rpc[of fn job tr retriesLeft e interval] assms by simp
  moreover have "attempts ?ev = 1 \<and> sleeps ?ev = 0"
    by (simp add: attempts_def sleeps_def)
  moreover have "status (performCheckError e job) = Some ''error''
      \<and> error (record' (performCheckError e job)) = Some \<lparr>err_name = err_name e, err_message = err_message e\<rparr>"
    by (simp add: performCheckError_def)
  ultimately show ?thesis by blast
qed

theorem rpc_error_not_retried_witness:
  "map_option (\<lambda>(r, tr). (status r, attempts tr, sleeps tr))
     (retryFn always_rejected example_job 3 1000 []) = Some (Some ''error'', 1, 0)"
proof -
  have a: "always_rejected example_job ([] @ [JobLog [Txt ''retryAttempt '', IntP 3]]) = Inl rpc_rejection"
    by (simp add: always_rejected_def)
  have b: "err_name rpc_rejection = ''RpcError''"
    by (simp add: rpc_rejection_def)
  from rpc_error_not_retried[where fn = always_rejected and job = example_job and tr = "[]"
      and retriesLeft = 3 and e = rpc_rejection and interval = 1000] a b
  show ?thesis
    by auto
qed

text \<open>
  Claim C7, as the code has it. When the member's address is one that \<^verbatim>\<open>edns.add\<close>
  accepts (an IPv4 or IPv6 literal), every call of \<^verbatim>\<open>checkService\<close> returns, and what it
  adds to the trace is one \<^verbatim>\<open>edns.add\<close> for the job's domain and address, then events
  among which are all the attempts of the check (between 1 and 4) and no change of the
  override table, then one \<^verbatim>\<open>edns.remove\<close> for the same domain and address, then events
  without any attempt or change of the table. So the override is installed once before the
  retry sequence and removed once after it, whether the attempts succeed or all throw.
\<close>

theorem dns_override_once:
  assumes "isIP pf (serviceIpAddress (member' job))"
  shows "\<exists>out mid post.
     checkService cfg pf rpc job tr =
       Some (out, tr @ DnsAdd (getDomain (subdomain job)) (serviceIpAddress (member' job)) # mid
                     @ DnsRemove (getDomain (subdomain job)) (serviceIpAddress (member' job)) # post)
     \<and> filter is_dns_change mid = [] \<and> filter is_dns_change post = []
     \<and> 1 \<le> attempts mid \<and> attempts mid \<le> 4 \<and> attempts post = 0"
proof -
  let ?d = "getDomain (subdomain job)" and ?ip = "serviceIpAddress (member' job)"
  obtain a where s: "setDNS pf ?d ?ip tr =
     (Inr (), tr @ [DnsAdd ?d ?ip, DnsLookup ?d (Some a),
                    ConsoleLog [Txt ?d, Txt '' now resolves to '', Txt a, Txt '', and should be '', Txt ?ip]])"
    using setDNS_trace[OF assms] by blast
  let ?tr1 = "tr @ [DnsAdd ?d ?ip, DnsLookup ?d (Some a),
                    ConsoleLog [Txt ?d, Txt '' now resolves to '', Txt a, Txt '', and should be '', Txt ?ip]]"
  obtain r ev where rt: "retryFn (performCheck cfg pf rpc) job (int 3) 1000 ?tr1 = Some (r, ?tr1 @ ev)"
      and ev: "filter is_dns_change ev = []" "1 \<le> attempts ev" "attempts ev \<le> 3 + 1"
    using retryFn_returns[of "performCheck cfg pf rpc" job 3 1000 ?tr1] by blast
  let ?tr2 = "?tr1 @ ev"
  obtain out post where c: "clearDNS pf ?d ?ip ?tr2 =
       (out, ?tr2 @ [ConsoleLog [Txt ''removing eDns for '', Txt ?d], DnsRemove ?d ?ip] @ post)"
      and post: "filter is_dns_change post = []" "attempts post = 0"
    using clearDNS_trace[of pf ?d ?ip ?tr2] by blast
  let ?mid = "[DnsLookup ?d (Some a),
               ConsoleLog [Txt ?d, Txt '' now resolves to '', Txt a, Txt '', and should be '', Txt ?ip]]
              @ ev @ [ConsoleLog [Txt ''removing eDns for '', Txt ?d]]"
  have mid: "filter is_dns_change ?mid = [] \<and> 1 \<le> attempts ?mid \<and> attempts ?mid \<le> 4"
    using ev by (simp add: attempts_def)
  have rt': "retryFn (performCheck cfg pf rpc) job 3 (1 * 1000) ?tr1 = Some (r, ?tr2)"
    using rt by simp
  show ?thesis
  proof (cases out)
    case (Inl e)
    have "checkService cfg pf rpc job tr = Some (Inl e, tr @ DnsAdd ?d ?ip # ?mid @ DnsRemove ?d ?ip # post)"
      unfolding checkService_def Let_def s using rt' c Inl by simp
    with mid post show ?thesis by blast
  next
    case (Inr u)
    let ?post = "post @ [ConsoleLog [Txt ''[worker] checkService done...'',
                                     Txt (member_id (member' job)), Txt (service_id (service' job))],
                         JobLog [Txt ''checkService done...'',
                                 Txt (member_id (member' job)), Txt (service_id (service' job))]]"
    have "checkService cfg pf rpc job tr = Some (Inr r, tr @ DnsAdd ?d ?ip # ?mid @ DnsRemove ?d ?ip # ?post)"
      unfolding checkService_def Let_def s using rt' c Inr by simp
    moreover have "filter is_dns_change ?post = [] \<and> attempts ?post = 0"
      using post by (simp add: attempts_def)
    ultimately show ?thesis using mid by blast
  qed
qed

lemma example_address_accepted: "isIP example_platform (serviceIpAddress (member' example_job))"
  by (simp add: example_platform_def example_job_def isIPv4_literal_def is_octet_def digit_value_def)

theorem dns_override_once_witness:
  "map_option (\<lambda>(out, tr). (filter is_dns_change tr, attempts tr))
     (checkService example_config example_platform unreachable_rpc example_job [])
   = Some ([DnsAdd ''rpc-test.dotters.network'' ''10.0.0.5'',
            DnsRemove ''rpc-test.dotters.network'' ''10.0.0.5''], 4)"
proof -
  have ok: "isIP example_platform ''10.0.0.5''"
    using example_address_accepted by (simp add: example_job_def)
  have none: "resolve example_platform ''rpc-test.dotters.network'' = None"
    by (simp add: example_platform_def)
  have four: "attempts (snd (the (checkService example_config example_platform unreachable_rpc example_job []))) = 4"
    by (simp add: checkService_def setDNS_def clearDNS_def lookupAsync_def retryFn.simps performCheck_def
        unreachable_rpc_def connect_timeout_def example_job_def getDomain_def attempts_def Let_def ok none)
  from dns_override_once[OF example_address_accepted, of example_config unreachable_rpc "[]"]
  obtain out mid post where
    h: "checkService example_config example_platform unreachable_rpc example_job [] =
       Some (out, [] @ DnsAdd (getDomain (subdomain example_job)) (serviceIpAddress (member' example_job)) # mid
                     @ DnsRemove (getDomain (subdomain example_job)) (serviceIpAddress (member' example_job)) # post)"
       "filter is_dns_change mid = []" "filter is_dns_change post = []"
    by blast
  show ?thesis
    using four h by (simp add: example_job_def getDomain_def)
qed

text \<open>
  For the address \<^verbatim>\<open>not-an-ip\<close> the call \<^verbatim>\<open>edns.add\<close> throws: \<^verbatim>\<open>checkService\<close>
  rejects with that error, and its trace has no installation, no attempt and no removal.
\<close>

theorem dns_invalid_address_counterexample:
  "checkService example_config example_platform unreachable_rpc invalid_address_job []
     = Some (Inl \<lparr>err_name = ''Error'', err_message = ''Invalid ip: not-an-ip''\<rparr>, [])"
  by (simp add: checkService_def setDNS_def invalid_address_job_def example_job_def example_platform_def
      isIPv4_literal_def is_octet_def digit_value_def Let_def)

section \<open>Properties of the message handler\<close>

lemma js_elements_array: "js_elements bi (JArr ds) = map Some ds"
proof -
  have "map (js_index (JArr ds)) [0..<length ds] = map (\<lambda>i. Some (ds ! i)) [0..<length ds]"
    by simp
  also have "\<dots> = map Some (map ((!) ds) [0..<length ds])"
    by simp
  also have "\<dots> = map Some ds"
    by (simp only: map_nth)
  finally show ?thesis
    by (simp add: js_elements_def iterations_def)
qed

lemma js_prop_object: "is_object d \<Longrightarrow> js_prop d k = Inr (json_member d k)"
  by (cases d) simp_all

lemma services_loop_objects:
  "\<forall>d\<in>set ds. is_object d \<Longrightarrow>
   fst (services_loop sender (map Some ds) st) = Inr ()
   \<and> datastore (snd (services_loop sender (map Some ds) st)) =
       datastore st @ concat (map (\<lambda>d. [Service_upsert (Some d), Peer_upsert sender (json_member d ''serviceUrl'')]) ds)
   \<and> console (snd (services_loop sender (map Some ds) st)) = console st @ map (\<lambda>d. LogModel (Some d)) ds"
proof (induction ds arbitrary: st)
  case Nil
  show ?case by simp
next
  case (Cons d ds)
  then have obj: "is_object d" and rest: "\<forall>d\<in>set ds. is_object d"
    by simp_all
  show ?case
    using Cons.IH[OF rest] by (simp add: js_prop_object[OF obj] Let_def)
qed

text \<open>
  Claim C8. For a message on \<^verbatim>\<open>/ibp/services\<close> whose payload decodes to an array of
  objects, the handler completes, and the operations it adds to the datastore are: the
  upsert of the Monitor keyed by the sender with the decoded array as its services, then
  for each descriptor in order the upsert of the Service and the upsert of the Peer that
  links the sender to the descriptor's \<^verbatim>\<open>serviceUrl\<close>.
\<close>

theorem services_announcement_upserts:
  assumes "topic evt = ''/ibp/services''"
    and "JSON_parse bi (data evt) = Inr (JArr ds)"
    and "\<forall>d\<in>set ds. is_object d"
  shows "fst (handleMessage bi evt st) = Inr ()
     \<and> datastore (snd (handleMessage bi evt st)) =
         datastore st @ Monitor_upsert (from' evt) (JArr ds)
           # concat (map (\<lambda>d. [Service_upsert (Some d),
                                Peer_upsert (from' evt) (json_member d ''serviceUrl'')]) ds)"
proof -
  have "handleMessage bi evt st =
      services_loop (from' evt) (map Some ds)
        (st\<lparr>console := console st @ [LogServicesFrom (from' evt)],
            datastore := datastore st @ [Monitor_upsert (from' evt) (JArr ds)]\<rparr>)"
    using assms(1,2) by (simp add: handleMessage_def js_elements_array Let_def)
  then show ?thesis
    using services_loop_objects[OF assms(3)] by simp
qed

theorem services_announcement_upserts_witness:
  "fst (handleMessage example_builtins (gossip ''/ibp/services'' services_payload) empty_state) = Inr ()
   \<and> datastore (snd (handleMessage example_builtins (gossip ''/ibp/services'' services_payload) empty_state)) =
       [Monitor_upsert ''P1'' (JArr [JObj [(''serviceUrl'', JStr ''wss://a''), (''chainId'', JStr ''polkadot'')]]),
        Service_upsert (Some (JObj [(''serviceUrl'', JStr ''wss://a''), (''chainId'', JStr ''polkadot'')])),
        Peer_upsert ''P1'' (Some (JStr ''wss://a''))]"
proof -
  have a: "topic (gossip ''/ibp/services'' services_payload) = ''/ibp/services''"
    by (simp add: gossip_def)
  have b: "JSON_parse example_builtins (data (gossip ''/ibp/services'' services_payload)) =
           Inr (JArr [JObj [(''serviceUrl'', JStr ''wss://a''), (''chainId'', JStr ''polkadot'')]])"
    by (simp add: gossip_def example_builtins_def services_decoded_def)
  have c: "\<forall>d\<in>set [JObj [(''serviceUrl'', JStr ''wss://a''), (''chainId'', JStr ''polkadot'')]]. is_object d"
    by simp
  from services_announcement_upserts[OF a b c, of empty_state] show ?thesis
    by (simp add: gossip_def empty_state_def)
qed

text \<open>
  Claim C3, as the code has it. For a message on \<^verbatim>\<open>/ibp/healthCheck\<close> whose payload is
  not valid JSON, or decodes to \<^verbatim>\<open>null\<close>, the handler performs no datastore operation:
  no HealthCheck row is created.
\<close>

theorem undecodable_health_check_no_row:
  assumes "topic evt = ''/ibp/healthCheck''"
    and "(\<exists>e. JSON_parse bi (data evt) = Inl e) \<or> JSON_parse bi (data evt) = Inr JNull"
  shows "datastore (snd (handleMessage bi evt st)) = datastore st
     \<and> created_rows (datastore (snd (handleMessage bi evt st))) = created_rows (datastore st)"
  using assms by (auto simp: handleMessage_def)

theorem undecodable_health_check_no_row_witness:
  "created_rows (datastore (snd (handleMessage example_builtins (gossip ''/ibp/healthCheck'' ''not json'') empty_state))) = []
   \<and> created_rows (datastore (snd (handleMessage example_builtins (gossip ''/ibp/healthCheck'' ''null'') empty_state))) = []"
proof -
  have t: "\<And>p. topic (gossip ''/ibp/healthCheck'' p) = ''/ibp/healthCheck''"
    by (simp add: gossip_def)
  have a: "(\<exists>e. JSON_parse example_builtins (data (gossip ''/ibp/healthCheck'' ''not json'')) = Inl e)
           \<or> JSON_parse example_builtins (data (gossip ''/ibp/healthCheck'' ''not json'')) = Inr JNull"
    by (simp add: gossip_def example_builtins_def services_payload_def level_false_payload_def)
  have b: "(\<exists>e. JSON_parse example_builtins (data (gossip ''/ibp/healthCheck'' ''null'')) = Inl e)
           \<or> JSON_parse example_builtins (data (gossip ''/ibp/healthCheck'' ''null'')) = Inr JNull"
    by (simp add: gossip_def example_builtins_def services_payload_def level_false_payload_def)
  from undecodable_health_check_no_row[OF t a, of empty_state]
       undecodable_health_check_no_row[OF t b, of empty_state]
  show ?thesis by (simp add: empty_state_def)
qed

text \<open>
  A payload that is not JSON makes the handler throw the \<^verbatim>\<open>SyntaxError\<close> of the parser,
  with nothing written to the console; and the payload \<^verbatim>\<open>{}\<close>, which has none of the
  fields of a health-check record, creates a row.
\<close>

theorem malformed_gossip_counterexample:
  "fst (handleMessage example_builtins (gossip ''/ibp/healthCheck'' ''not json'') empty_state) = Inl syntax_error
   \<and> console (snd (handleMessage example_builtins (gossip ''/ibp/healthCheck'' ''not json'') empty_state)) = []
   \<and> length (created_rows (datastore (snd (handleMessage example_builtins (gossip ''/ibp/healthCheck'' ''{}'') empty_state)))) = 1"
  by (simp add: handleMessage_def gossip_def example_builtins_def services_payload_def level_false_payload_def
      empty_state_def Let_def)

text \<open>
  Claim C10, as the code has it. For a message on \<^verbatim>\<open>/ibp/healthCheck\<close> whose payload
  decodes to a JSON value other than \<^verbatim>\<open>null\<close>, the handler completes and adds exactly one
  operation to the datastore, the creation of a row with \<open>source = "gossip"\<close>, the sender
  as \<open>monitorId\<close>, the payload's \<^verbatim>\<open>serviceUrl\<close> (\<^verbatim>\<open>undefined\<close> when it has none), the
  payload's \<^verbatim>\<open>level\<close> when that is truthy and \<open>"info"\<close> otherwise, and the payload itself
  as \<open>record\<close>.
\<close>

theorem gossip_health_check_creates_row:
  assumes "topic evt = ''/ibp/healthCheck''"
    and "JSON_parse bi (data evt) = Inr payload"
    and "payload \<noteq> JNull"
  shows "\<exists>url lvl. js_prop payload ''serviceUrl'' = Inr url \<and> js_prop payload ''level'' = Inr lvl
     \<and> (is_object payload \<longrightarrow> url = json_member payload ''serviceUrl'' \<and> lvl = json_member payload ''level'')
     \<and> fst (handleMessage bi evt st) = Inr ()
     \<and> datastore (snd (handleMessage bi evt st)) =
         datastore st @ [HealthCheck_create
           \<lparr>g_monitorId = from' evt, g_serviceUrl = url,
            g_level = (if js_truthy lvl then lvl else Some (JStr ''info'')),
            g_source = ''gossip'', g_record = payload\<rparr>]"
  using assms by (cases payload) (simp_all add: handleMessage_def Let_def)

theorem gossip_health_check_creates_row_witness:
  "created_rows (datastore (snd (handleMessage example_builtins (gossip ''/ibp/healthCheck'' ''{}'') empty_state))) =
     [\<lparr>g_monitorId = ''P1'', g_serviceUrl = None, g_level = Some (JStr ''info''),
       g_source = ''gossip'', g_record = JObj []\<rparr>]"
proof -
  have a: "topic (gossip ''/ibp/healthCheck'' ''{}'') = ''/ibp/healthCheck''"
    by (simp add: gossip_def)
  have b: "JSON_parse example_builtins (data (gossip ''/ibp/healthCheck'' ''{}'')) = Inr (JObj [])"
    by (simp add: gossip_def example_builtins_def services_payload_def)
  have c: "JObj [] \<noteq> JNull" by simp
  from gossip_health_check_creates_row[OF a b c, of empty_state] show ?thesis
    by (auto simp: gossip_def empty_state_def)
qed

text \<open>
  The payload \<^verbatim>\<open>null\<close> is valid JSON and creates no row: reading its \<^verbatim>\<open>serviceUrl\<close>
  throws. A payload with \<^verbatim>\<open>level: false\<close> has a level, and its row has level \<open>"info"\<close>.
\<close>

theorem gossip_null_payload_counterexample:
  "fst (handleMessage example_builtins (gossip ''/ibp/healthCheck'' ''null'') empty_state) = Inl (TypeError ''serviceUrl'')
   \<and> created_rows (datastore (snd (handleMessage example_builtins (gossip ''/ibp/healthCheck'' ''null'') empty_state))) = []
   \<and> map g_level (created_rows (datastore (snd (handleMessage example_builtins
        (gossip ''/ibp/healthCheck'' level_false_payload) empty_state)))) = [Some (JStr ''info'')]
   \<and> json_member (JObj [(''level'', JBool False)]) ''level'' = Some (JBool False)"
  by (simp add: handleMessage_def gossip_def example_builtins_def services_payload_def level_false_payload_def
      empty_state_def Let_def)

end
